theory Spec2Isabelle
  imports Main
begin

section \<open>Live watch statistics: heartbeat tracking, settlement and report\<close>

text \<open>
  The development embeds three route handlers of the repository:
  \<^item> \<^verbatim>\<open>src/app/api/live/heartbeat/route.ts\<close>: \<^verbatim>\<open>settleWatchSession\<close> and the heartbeat
    \<^verbatim>\<open>POST\<close>;
  \<^item> the end-of-watch route (\<^verbatim>\<open>POST /api/live/heartbeat/end\<close>), which carries its own copy
    of \<^verbatim>\<open>settleWatchSession\<close>; the two copies differ in one log line only, so one
    definition stands for both;
  \<^item> the admin statistics route (\<^verbatim>\<open>GET /api/admin/live-stats\<close>).

  Numbers are JavaScript numbers holding integers (timestamps in milliseconds, counts,
  seconds); they are modelled as \<open>int\<close>, which is exact below \<open>2 ^ 53\<close>.
  Strings are \<open>string\<close>; a missing or empty string is \<open>[]\<close>, the only falsy string.
\<close>

subsection \<open>Constants\<close>

definition HEARTBEAT_INTERVAL :: int where
  "HEARTBEAT_INTERVAL = 30"

definition WATCH_STATE_TTL :: int where
  "WATCH_STATE_TTL = 60"

definition MAX_SESSION_DURATION :: int where
  "MAX_SESSION_DURATION = 8 * 60 * 60"

definition MIN_SESSION_DURATION :: int where
  "MIN_SESSION_DURATION = 30"

definition STATS_CACHE_TTL :: int where
  "STATS_CACHE_TTL = 5 * 60"

subsection \<open>Data\<close>

text \<open>
  Field names are those of the source. Where two object shapes share a field name, the
  later record carries a short prefix: \<open>s_\<close> for a watch session, \<open>us_\<close> for the stored
  user statistics, \<open>d_\<close> for a daily record, \<open>c_\<close> for the stored channel statistics,
  \<open>b_\<close> for the request body, \<open>f_\<close>, \<open>g_\<close>, \<open>h_\<close>, \<open>t_\<close> and \<open>u_\<close> for the
  entries the report builds.
\<close>

record LiveWatchState =
  channelId :: string
  channelName :: string
  channelGroup :: string
  channelLogo :: string
  sourceKey :: string
  sourceName :: string
  startTime :: int
  lastHeartbeat :: int
  heartbeatCount :: int

record LiveWatchSession =
  s_channelId :: string
  s_channelName :: string
  s_channelGroup :: string
  s_channelLogo :: string
  s_sourceKey :: string
  s_sourceName :: string
  s_startTime :: int
  s_endTime :: int
  s_duration :: int
  s_heartbeatCount :: int

record UserStats =
  us_totalWatchTime :: int
  us_totalSessions :: int
  us_lastWatchTime :: int

record DailyStats =
  d_watchTime :: int
  d_sessions :: int
  d_users :: "string list"

record ChannelStats =
  c_channelId :: string
  c_channelName :: string
  c_channelGroup :: string
  c_totalWatchTime :: int
  c_totalSessions :: int
  c_users :: "string list"

record LiveHeartbeatRequest =
  sessionId :: string
  b_channelId :: string
  b_channelName :: string
  b_channelGroup :: string
  b_channelLogo :: string
  b_sourceKey :: string
  b_sourceName :: string

subsection \<open>Calendar days\<close>

text \<open>
  \<^verbatim>\<open>new Date(t).toISOString().split('T')[0]\<close> is the UTC calendar day of the timestamp
  \<open>t\<close> (milliseconds since the epoch) printed as \<^verbatim>\<open>YYYY-MM-DD\<close>. The model names a day
  by its number since the epoch; a UTC day has exactly \<open>86400000\<close> milliseconds.
\<close>

type_synonym day = int

definition dateKey :: "int \<Rightarrow> day" where
  "dateKey t = t div (24 * 60 * 60 * 1000)"

subsection \<open>Report data\<close>

record FavoriteChannel =
  f_channelId :: string
  f_channelName :: string
  f_channelGroup :: string
  f_watchTime :: int
  f_watchCount :: int

text \<open>An entry of \<^verbatim>\<open>channelStatsMap\<close>; the \<^verbatim>\<open>Set\<close> of user names is a duplicate-free list.\<close>

record GlobalChannel =
  g_channelId :: string
  g_channelName :: string
  g_channelGroup :: string
  g_totalWatchTime :: int
  g_totalSessions :: int
  g_users :: "string list"

record HotChannel =
  h_channelId :: string
  h_channelName :: string
  h_channelGroup :: string
  h_totalWatchTime :: int
  h_totalUsers :: int
  h_totalSessions :: int

record DailyTrend =
  t_date :: day
  t_watchTime :: int
  t_sessions :: int
  t_users :: int

record UserLiveStats =
  u_username :: string
  u_totalWatchTime :: int
  u_totalSessions :: int
  u_lastWatchTime :: int
  favoriteChannels :: "FavoriteChannel list"
  recentSessions :: "LiveWatchSession list"

record GlobalLiveStats =
  totalUsers :: int
  totalWatchTime :: int
  totalSessions :: int
  todayActiveUsers :: int
  hotChannels :: "HotChannel list"
  dailyTrend :: "DailyTrend list"
  userStats :: "UserLiveStats list"

subsection \<open>The cache\<close>

text \<open>
  \<^verbatim>\<open>db.getCache\<close>, \<^verbatim>\<open>db.setCache\<close> and \<^verbatim>\<open>db.deleteCache\<close> work on one string-keyed store.
  The handlers use six key shapes whose prefixes are pairwise different, and each shape
  only ever holds one kind of value, so the store is one typed map per shape, indexed by
  the part of the key that follows the prefix:
  \<^item> \<^verbatim>\<open>live:watching:{username}:{sessionId}\<close>, indexed by \<open>watchKey username sessionId\<close>;
  \<^item> \<^verbatim>\<open>live:sessions:{username}\<close> and \<^verbatim>\<open>live:stats:{username}\<close>, indexed by the user name;
  \<^item> \<^verbatim>\<open>live:daily:{YYYY-MM-DD}\<close>, indexed by the day;
  \<^item> \<^verbatim>\<open>live:channel:{channelId}\<close>, indexed by the channel id;
  \<^item> \<^verbatim>\<open>live:global-stats\<close>, a single slot.
  \<open>None\<close> is a key that is absent: never written, deleted, or expired. Expiry is an
  action of the store and not of the handlers, so the time-to-live argument of
  \<^verbatim>\<open>setCache\<close> has no counterpart here. Every store operation succeeds and every
  request body is parsed: the \<^verbatim>\<open>catch\<close> blocks of the source, which log a failing store
  operation or answer with status 500, have no branch in the model.
\<close>

definition watchKey :: "string \<Rightarrow> string \<Rightarrow> string" where
  "watchKey username sid = username @ '':'' @ sid"

record store =
  watching :: "string \<rightharpoonup> LiveWatchState"
  sessions :: "string \<rightharpoonup> LiveWatchSession list"
  stats :: "string \<rightharpoonup> UserStats"
  daily :: "day \<rightharpoonup> DailyStats"
  channel :: "string \<rightharpoonup> ChannelStats"
  globalStats :: "GlobalLiveStats option"

definition empty_store :: store where
  "empty_store = \<lparr>watching = Map.empty, sessions = Map.empty, stats = Map.empty,
     daily = Map.empty, channel = Map.empty, globalStats = None\<rparr>"

subsection \<open>The keys of the cache\<close>

text \<open>
  The key strings that the handlers build. Keys of different shapes are different
  strings, which is what allows one typed map per shape in \<open>store\<close>; within the shape
  \<^verbatim>\<open>live:watching:\<close> the pair of user name and session id is not always determined by
  the key, and \<open>watchKey\<close> keeps that.
\<close>

datatype cache_key =
  WatchingKey string string
| SessionsKey string
| StatsKey string
| DailyKey string
| ChannelKey string
| GlobalStatsKey

fun key_string :: "cache_key \<Rightarrow> string" where
  "key_string (WatchingKey u sid) = ''live:watching:'' @ u @ '':'' @ sid"
| "key_string (SessionsKey u) = ''live:sessions:'' @ u"
| "key_string (StatsKey u) = ''live:stats:'' @ u"
| "key_string (DailyKey d) = ''live:daily:'' @ d"
| "key_string (ChannelKey c) = ''live:channel:'' @ c"
| "key_string GlobalStatsKey = ''live:global-stats''"

fun key_shape :: "cache_key \<Rightarrow> nat" where
  "key_shape (WatchingKey u sid) = 0"
| "key_shape (SessionsKey u) = 1"
| "key_shape (StatsKey u) = 2"
| "key_shape (DailyKey d) = 3"
| "key_shape (ChannelKey c) = 4"
| "key_shape GlobalStatsKey = 5"

subsection \<open>Settlement\<close>

text \<open>
  \<^verbatim>\<open>settleWatchSession(username, state, endTime)\<close>. The extra argument \<open>clock\<close> is the
  time that \<^verbatim>\<open>new Date()\<close> reads inside the function when it builds the daily key.
  \<^verbatim>\<open>getCache(key) || dflt\<close> is \<open>dflt\<close> for an absent key; a stored list or object is
  never falsy.
\<close>

definition session_record :: "LiveWatchState \<Rightarrow> int \<Rightarrow> int \<Rightarrow> LiveWatchSession" where
  "session_record state endTime duration =
    \<lparr>s_channelId = channelId state, s_channelName = channelName state,
     s_channelGroup = channelGroup state, s_channelLogo = channelLogo state,
     s_sourceKey = sourceKey state, s_sourceName = sourceName state,
     s_startTime = startTime state, s_endTime = endTime, s_duration = duration,
     s_heartbeatCount = heartbeatCount state\<rparr>"

definition settleWatchSession :: "int \<Rightarrow> string \<Rightarrow> LiveWatchState \<Rightarrow> int \<Rightarrow> store \<Rightarrow> store" where
  "settleWatchSession clock username state endTime st =
    (let duration = heartbeatCount state * HEARTBEAT_INTERVAL in
     if duration < MIN_SESSION_DURATION then st
     else if duration > MAX_SESSION_DURATION then st
     else
       let session = session_record state endTime duration;
           existingSessions = (case sessions st username of None \<Rightarrow> [] | Some l \<Rightarrow> l);
           existingSessions = session # existingSessions;
           existingSessions =
             (if length existingSessions > 100 then take 100 existingSessions
              else existingSessions);
           st = st\<lparr>sessions := (sessions st)(username \<mapsto> existingSessions)\<rparr>;
           stats0 = (case stats st username of
                None \<Rightarrow> \<lparr>us_totalWatchTime = 0, us_totalSessions = 0, us_lastWatchTime = 0\<rparr>
              | Some s \<Rightarrow> s);
           stats1 = \<lparr>us_totalWatchTime = us_totalWatchTime stats0 + duration,
               us_totalSessions = us_totalSessions stats0 + 1,
               us_lastWatchTime = endTime\<rparr>;
           st = st\<lparr>stats := (stats st)(username \<mapsto> stats1)\<rparr>;
           today = dateKey clock;
           dailyStats = (case daily st today of
                None \<Rightarrow> \<lparr>d_watchTime = 0, d_sessions = 0, d_users = []\<rparr>
              | Some d \<Rightarrow> d);
           dailyStats = \<lparr>d_watchTime = d_watchTime dailyStats + duration,
               d_sessions = d_sessions dailyStats + 1,
               d_users = (if username \<in> set (d_users dailyStats) then d_users dailyStats
                          else d_users dailyStats @ [username])\<rparr>;
           st = st\<lparr>daily := (daily st)(today \<mapsto> dailyStats)\<rparr>;
           channelStats = (case channel st (channelId state) of
                None \<Rightarrow> \<lparr>c_channelId = channelId state, c_channelName = channelName state,
                          c_channelGroup = channelGroup state, c_totalWatchTime = 0,
                          c_totalSessions = 0, c_users = []\<rparr>
              | Some c \<Rightarrow> c);
           channelStats = channelStats\<lparr>
               c_totalWatchTime := c_totalWatchTime channelStats + duration,
               c_totalSessions := c_totalSessions channelStats + 1,
               c_users := (if username \<in> set (c_users channelStats) then c_users channelStats
                           else c_users channelStats @ [username])\<rparr>
       in st\<lparr>channel := (channel st)(channelId state \<mapsto> channelStats)\<rparr>)"

subsection \<open>The heartbeat route\<close>

datatype response = Success | Error int | Report GlobalLiveStats

record UserEntry =
  username :: string
  role :: string
  banned :: bool

text \<open>
  What a handler reads from outside the cache: the two environment variables (\<open>[]\<close> when
  unset), the user name of the session cookie (\<open>None\<close> without a cookie), and the user
  list of the site configuration.
\<close>

record environment =
  NEXT_PUBLIC_STORAGE_TYPE :: string
  USERNAME :: string
  authInfo :: "string option"
  Users :: "UserEntry list"

definition storageType :: "environment \<Rightarrow> string" where
  "storageType env =
    (if NEXT_PUBLIC_STORAGE_TYPE env = [] then ''localstorage'' else NEXT_PUBLIC_STORAGE_TYPE env)"

definition newState :: "LiveHeartbeatRequest \<Rightarrow> int \<Rightarrow> LiveWatchState" where
  "newState body now =
    \<lparr>channelId = b_channelId body, channelName = b_channelName body,
     channelGroup = b_channelGroup body, channelLogo = b_channelLogo body,
     sourceKey = b_sourceKey body, sourceName = b_sourceName body,
     startTime = now, lastHeartbeat = now, heartbeatCount = 1\<rparr>"

text \<open>
  The body of the heartbeat \<^verbatim>\<open>POST\<close> after its checks (from \<^verbatim>\<open>const now = Date.now()\<close>
  on): \<open>now\<close> is that reading, \<open>clock\<close> the later one inside \<open>settleWatchSession\<close>.
\<close>

definition record_heartbeat :: "int \<Rightarrow> int \<Rightarrow> string \<Rightarrow> LiveHeartbeatRequest \<Rightarrow> store \<Rightarrow> store" where
  "record_heartbeat now clock user body st =
    (let wk = watchKey user (sessionId body) in
     case watching st wk of
       Some lastState \<Rightarrow>
         if channelId lastState \<noteq> b_channelId body then
           let st = settleWatchSession clock user lastState now st
           in st\<lparr>watching := (watching st)(wk \<mapsto> newState body now)\<rparr>
         else
           let updatedState = lastState\<lparr>lastHeartbeat := now,
                 heartbeatCount := heartbeatCount lastState + 1\<rparr>
           in st\<lparr>watching := (watching st)(wk \<mapsto> updatedState)\<rparr>
     | None \<Rightarrow> st\<lparr>watching := (watching st)(wk \<mapsto> newState body now)\<rparr>)"

definition POST_heartbeat :: "environment \<Rightarrow> int \<Rightarrow> int \<Rightarrow> LiveHeartbeatRequest \<Rightarrow> store \<Rightarrow> response \<times> store" where
  "POST_heartbeat env now clock body st =
    (if storageType env = ''localstorage'' then (Error 400, st)
     else case authInfo env of
       None \<Rightarrow> (Error 401, st)
     | Some user \<Rightarrow>
         if user = [] then (Error 401, st)
         else if sessionId body = [] \<or> b_channelId body = [] \<or> b_channelName body = []
                 \<or> b_sourceKey body = [] then (Error 400, st)
         else (Success, record_heartbeat now clock user body st))"

subsection \<open>The end-of-watch route\<close>

definition end_watch :: "int \<Rightarrow> int \<Rightarrow> string \<Rightarrow> string \<Rightarrow> store \<Rightarrow> store" where
  "end_watch now clock user sid st =
    (let wk = watchKey user sid in
     case watching st wk of
       Some state \<Rightarrow>
         let st = settleWatchSession clock user state now st
         in st\<lparr>watching := (watching st)(wk := None)\<rparr>
     | None \<Rightarrow> st)"

definition POST_heartbeat_end :: "environment \<Rightarrow> int \<Rightarrow> int \<Rightarrow> string \<Rightarrow> store \<Rightarrow> response \<times> store" where
  "POST_heartbeat_end env now clock sid st =
    (if storageType env = ''localstorage'' then (Error 400, st)
     else case authInfo env of
       None \<Rightarrow> (Error 401, st)
     | Some user \<Rightarrow>
         if user = [] then (Error 401, st)
         else if sid = [] then (Error 400, st)
         else (Success, end_watch now clock user sid st))"

subsection \<open>The statistics report\<close>

text \<open>
  A JavaScript \<^verbatim>\<open>Map\<close> keeps its entries in the order in which their keys were first
  set: it is an association list, \<^verbatim>\<open>get\<close> is \<open>map_of\<close>, and \<open>map_set\<close> overwrites the
  value of a key in place or appends a new entry. Changing a field of the object that
  \<^verbatim>\<open>get\<close> returned is a \<open>map_set\<close> of the changed object.
\<close>

fun map_set :: "'k \<Rightarrow> 'v \<Rightarrow> ('k \<times> 'v) list \<Rightarrow> ('k \<times> 'v) list" where
  "map_set k v [] = [(k, v)]"
| "map_set k v (p # ps) = (if fst p = k then (k, v) # ps else p # map_set k v ps)"

text \<open>
  \<^verbatim>\<open>xs.sort((a, b) => f(b) - f(a))\<close>: \<^verbatim>\<open>Array.prototype.sort\<close> is a stable sort, here into
  descending order of \<open>f\<close>.
\<close>

definition sort_desc :: "('a \<Rightarrow> int) \<Rightarrow> 'a list \<Rightarrow> 'a list" where
  "sort_desc f xs = sort_key (\<lambda>x. - f x) xs"

text \<open>The body of the loop over one user's sessions, on the two maps it updates.\<close>

definition watch_step :: "LiveWatchSession \<Rightarrow> (string \<times> FavoriteChannel) list \<Rightarrow> (string \<times> FavoriteChannel) list" where
  "watch_step session channelWatchMap =
    (case map_of channelWatchMap (s_channelId session) of
       Some existing \<Rightarrow>
         map_set (s_channelId session)
           (existing\<lparr>f_watchTime := f_watchTime existing + s_duration session,
                     f_watchCount := f_watchCount existing + 1\<rparr>) channelWatchMap
     | None \<Rightarrow>
         map_set (s_channelId session)
           \<lparr>f_channelId = s_channelId session, f_channelName = s_channelName session,
            f_channelGroup = s_channelGroup session, f_watchTime = s_duration session,
            f_watchCount = 1\<rparr> channelWatchMap)"

definition global_step :: "string \<Rightarrow> LiveWatchSession \<Rightarrow> (string \<times> GlobalChannel) list \<Rightarrow> (string \<times> GlobalChannel) list" where
  "global_step user session channelStatsMap =
    (case map_of channelStatsMap (s_channelId session) of
       Some globalChannel \<Rightarrow>
         map_set (s_channelId session)
           (globalChannel\<lparr>
              g_totalWatchTime := g_totalWatchTime globalChannel + s_duration session,
              g_totalSessions := g_totalSessions globalChannel + 1,
              g_users := (if user \<in> set (g_users globalChannel) then g_users globalChannel
                          else g_users globalChannel @ [user])\<rparr>) channelStatsMap
     | None \<Rightarrow>
         map_set (s_channelId session)
           \<lparr>g_channelId = s_channelId session, g_channelName = s_channelName session,
            g_channelGroup = s_channelGroup session, g_totalWatchTime = s_duration session,
            g_totalSessions = 1, g_users = [user]\<rparr> channelStatsMap)"

fun session_loop :: "string \<Rightarrow> LiveWatchSession list \<Rightarrow> (string \<times> FavoriteChannel) list \<times> (string \<times> GlobalChannel) list \<Rightarrow> (string \<times> FavoriteChannel) list \<times> (string \<times> GlobalChannel) list" where
  "session_loop user [] maps = maps"
| "session_loop user (session # rest) (channelWatchMap, channelStatsMap) =
     session_loop user rest
       (watch_step session channelWatchMap, global_step user session channelStatsMap)"

text \<open>The variables that the loop over all users updates.\<close>

record scan =
  sc_userStats :: "UserLiveStats list"
  sc_totalWatchTime :: int
  sc_totalSessions :: int
  sc_channelStatsMap :: "(string \<times> GlobalChannel) list"

definition user_step :: "store \<Rightarrow> UserEntry \<Rightarrow> scan \<Rightarrow> scan" where
  "user_step st user sc =
    (let stats0 = stats st (username user);
         sessions0 = (case sessions st (username user) of None \<Rightarrow> [] | Some l \<Rightarrow> l) in
     if stats0 = None \<and> length sessions0 = 0 then sc
     else
       let (channelWatchMap, channelStatsMap) =
             session_loop (username user) sessions0 ([], sc_channelStatsMap sc);
           favoriteChannels0 = take 5 (sort_desc f_watchTime (map snd channelWatchMap));
           userStat = \<lparr>u_username = username user,
               u_totalWatchTime = (case stats0 of None \<Rightarrow> 0 | Some s \<Rightarrow> us_totalWatchTime s),
               u_totalSessions = (case stats0 of None \<Rightarrow> 0 | Some s \<Rightarrow> us_totalSessions s),
               u_lastWatchTime = (case stats0 of None \<Rightarrow> 0 | Some s \<Rightarrow> us_lastWatchTime s),
               favoriteChannels = favoriteChannels0,
               recentSessions = take 10 sessions0\<rparr>
       in \<lparr>sc_userStats = sc_userStats sc @ [userStat],
           sc_totalWatchTime = sc_totalWatchTime sc + u_totalWatchTime userStat,
           sc_totalSessions = sc_totalSessions sc + u_totalSessions userStat,
           sc_channelStatsMap = channelStatsMap\<rparr>)"

fun user_loop :: "store \<Rightarrow> UserEntry list \<Rightarrow> scan \<Rightarrow> scan" where
  "user_loop st [] sc = sc"
| "user_loop st (user # rest) sc = user_loop st rest (user_step st user sc)"

definition hot_channel :: "GlobalChannel \<Rightarrow> HotChannel" where
  "hot_channel ch =
    \<lparr>h_channelId = g_channelId ch, h_channelName = g_channelName ch,
     h_channelGroup = g_channelGroup ch, h_totalWatchTime = g_totalWatchTime ch,
     h_totalUsers = int (length (g_users ch)), h_totalSessions = g_totalSessions ch\<rparr>"

text \<open>\<^verbatim>\<open>for (let i = 6; i >= 0; i--)\<close>, with \<open>now\<close> the reading of \<^verbatim>\<open>new Date()\<close>.\<close>

function trend_loop :: "store \<Rightarrow> int \<Rightarrow> int \<Rightarrow> DailyTrend list \<Rightarrow> DailyTrend list" where
  "trend_loop st now i acc =
    (if i \<ge> 0 then
       let dk = dateKey (now - i * 24 * 60 * 60 * 1000);
           dailyStats = daily st dk
       in trend_loop st now (i - 1)
            (acc @ [\<lparr>t_date = dk,
               t_watchTime = (case dailyStats of None \<Rightarrow> 0 | Some d \<Rightarrow> d_watchTime d),
               t_sessions = (case dailyStats of None \<Rightarrow> 0 | Some d \<Rightarrow> d_sessions d),
               t_users = (case dailyStats of None \<Rightarrow> 0 | Some d \<Rightarrow> int (length (d_users d)))\<rparr>])
     else acc)"
  by pat_completeness auto
termination
  by (relation "measure (\<lambda>(st, now, i, acc). nat (i + 1))") auto

text \<open>
  The computation of the report, from \<^verbatim>\<open>const allUsers = config.UserConfig.Users\<close> to
  the construction of \<^verbatim>\<open>result\<close>.
\<close>

definition build_report :: "UserEntry list \<Rightarrow> int \<Rightarrow> store \<Rightarrow> GlobalLiveStats" where
  "build_report allUsers now st =
    (let sc = user_loop st allUsers
           \<lparr>sc_userStats = [], sc_totalWatchTime = 0, sc_totalSessions = 0,
            sc_channelStatsMap = []\<rparr>;
         userStats0 = sort_desc u_totalWatchTime (sc_userStats sc);
         hotChannels0 = take 10 (sort_desc h_totalWatchTime
             (map hot_channel (map snd (sc_channelStatsMap sc))));
         dailyTrend0 = trend_loop st now 6 [];
         todayActiveUsers0 = (case daily st (dateKey now) of
              None \<Rightarrow> 0 | Some d \<Rightarrow> int (length (d_users d)))
     in \<lparr>totalUsers = int (length userStats0),
         totalWatchTime = sc_totalWatchTime sc,
         totalSessions = sc_totalSessions sc,
         todayActiveUsers = todayActiveUsers0,
         hotChannels = hotChannels0,
         dailyTrend = dailyTrend0,
         userStats = userStats0\<rparr>)"

definition isAdmin :: "environment \<Rightarrow> string \<Rightarrow> bool" where
  "isAdmin env user =
    (if user = USERNAME env then True
     else case find (\<lambda>u. username u = user) (Users env) of
       None \<Rightarrow> False
     | Some userEntry \<Rightarrow> role userEntry = ''admin'' \<and> \<not> banned userEntry)"

text \<open>
  The cache of the report: unless \<open>forceRefresh\<close> is set, a cached report is returned
  as it is; otherwise the report is built and cached.
\<close>

definition cached_or_built :: "bool \<Rightarrow> UserEntry list \<Rightarrow> int \<Rightarrow> store \<Rightarrow> response \<times> store" where
  "cached_or_built forceRefresh allUsers now st =
    (case (if forceRefresh then None else globalStats st) of
       Some cachedStats \<Rightarrow> (Report cachedStats, st)
     | None \<Rightarrow>
         (let result = build_report allUsers now st
          in (Report result, st\<lparr>globalStats := Some result\<rparr>)))"

text \<open>
  The handler; \<open>refresh\<close> is the query parameter of that name (\<open>None\<close> when it is not
  given) and \<open>now\<close> the reading of \<^verbatim>\<open>new Date()\<close>.
\<close>

definition GET_live_stats :: "environment \<Rightarrow> string option \<Rightarrow> int \<Rightarrow> store \<Rightarrow> response \<times> store" where
  "GET_live_stats env refresh now st =
    (if storageType env = ''localstorage'' then (Error 400, st)
     else case authInfo env of
       None \<Rightarrow> (Error 401, st)
     | Some user \<Rightarrow>
         if user = [] then (Error 401, st)
         else if \<not> isAdmin env user then (Error 403, st)
         else cached_or_built (refresh = Some ''true'') (Users env) now st)"

section \<open>Auxiliary definitions\<close>

subsection \<open>Reading the store with the defaults of the source\<close>

definition user_sessions :: "store \<Rightarrow> string \<Rightarrow> LiveWatchSession list" where
  "user_sessions st u = (case sessions st u of None \<Rightarrow> [] | Some l \<Rightarrow> l)"

definition user_total :: "store \<Rightarrow> string \<Rightarrow> int" where
  "user_total st u = (case stats st u of None \<Rightarrow> 0 | Some s \<Rightarrow> us_totalWatchTime s)"

definition user_count :: "store \<Rightarrow> string \<Rightarrow> int" where
  "user_count st u = (case stats st u of None \<Rightarrow> 0 | Some s \<Rightarrow> us_totalSessions s)"

definition user_last :: "store \<Rightarrow> string \<Rightarrow> int" where
  "user_last st u = (case stats st u of None \<Rightarrow> 0 | Some s \<Rightarrow> us_lastWatchTime s)"

definition daily_total :: "store \<Rightarrow> day \<Rightarrow> int" where
  "daily_total st k = (case daily st k of None \<Rightarrow> 0 | Some d \<Rightarrow> d_watchTime d)"

definition channel_total :: "store \<Rightarrow> string \<Rightarrow> int" where
  "channel_total st c = (case channel st c of None \<Rightarrow> 0 | Some s \<Rightarrow> c_totalWatchTime s)"

definition daily_count :: "store \<Rightarrow> day \<Rightarrow> int" where
  "daily_count st k = (case daily st k of None \<Rightarrow> 0 | Some d \<Rightarrow> d_sessions d)"

definition daily_users :: "store \<Rightarrow> day \<Rightarrow> string list" where
  "daily_users st k = (case daily st k of None \<Rightarrow> [] | Some d \<Rightarrow> d_users d)"

definition channel_count :: "store \<Rightarrow> string \<Rightarrow> int" where
  "channel_count st c = (case channel st c of None \<Rightarrow> 0 | Some s \<Rightarrow> c_totalSessions s)"

definition channel_users :: "store \<Rightarrow> string \<Rightarrow> string list" where
  "channel_users st c = (case channel st c of None \<Rightarrow> [] | Some s \<Rightarrow> c_users s)"

text \<open>The two range checks of \<open>settleWatchSession\<close>, both passed.\<close>

definition in_range :: "LiveWatchState \<Rightarrow> bool" where
  "in_range state \<longleftrightarrow>
     MIN_SESSION_DURATION \<le> heartbeatCount state * HEARTBEAT_INTERVAL \<and>
     heartbeatCount state * HEARTBEAT_INTERVAL \<le> MAX_SESSION_DURATION"

definition active :: "store \<Rightarrow> string \<Rightarrow> bool" where
  "active st u \<longleftrightarrow> \<not> (stats st u = None \<and> user_sessions st u = [])"

subsection \<open>Runs of heartbeats and of settlements\<close>



fun settlements :: "(int \<times> string \<times> LiveWatchState \<times> int) list \<Rightarrow> store \<Rightarrow> store" where
  "settlements [] st = st"
| "settlements ((clock, u, state, endTime) # rest) st =
     settlements rest (settleWatchSession clock u state endTime st)"

definition session_sum :: "store \<Rightarrow> string \<Rightarrow> int" where
  "session_sum st u = sum_list (map s_duration (user_sessions st u))"

definition sum_inv :: "store \<Rightarrow> string \<Rightarrow> bool" where
  "sum_inv st u \<longleftrightarrow>
     list_all (\<lambda>s. 0 \<le> s_duration s) (user_sessions st u) \<and>
     session_sum st u \<le> user_total st u \<and>
     (user_count st u \<le> 100 \<longrightarrow>
        int (length (user_sessions st u)) = user_count st u \<and> session_sum st u = user_total st u)"

subsection \<open>The report in the words of the specification\<close>

text \<open>
  The definitions of this subsection do not follow the source: they say what the report
  is meant to contain, and the theorems below compare the source with them.
  \<open>first_occ xs\<close> lists the distinct elements of \<open>xs\<close> in the order of their first
  occurrence (\<open>remdups\<close> keeps the last occurrence of an element, hence the two reversals).
  \<open>channel_total_of ss cid\<close> sums the durations and counts the sessions of channel \<open>cid\<close>
  in \<open>ss\<close>, with the name and group of the first of them; \<open>global_total_of\<close> and
  \<open>hot_total_of\<close> do the same over sessions paired with their users, and count the
  distinct users. \<open>scanned st allUsers\<close> lists every session the report reads, with its
  user, in reading order.
\<close>

definition first_occ :: "'a list \<Rightarrow> 'a list" where
  "first_occ xs = rev (remdups (rev xs))"

definition channel_total_of :: "LiveWatchSession list \<Rightarrow> string \<Rightarrow> FavoriteChannel" where
  "channel_total_of ss cid =
    (let g = filter (\<lambda>s. s_channelId s = cid) ss in
     \<lparr>f_channelId = cid,
      f_channelName = (case g of [] \<Rightarrow> [] | s # _ \<Rightarrow> s_channelName s),
      f_channelGroup = (case g of [] \<Rightarrow> [] | s # _ \<Rightarrow> s_channelGroup s),
      f_watchTime = sum_list (map s_duration g),
      f_watchCount = int (length g)\<rparr>)"

definition channel_totals :: "LiveWatchSession list \<Rightarrow> FavoriteChannel list" where
  "channel_totals ss = map (channel_total_of ss) (first_occ (map s_channelId ss))"

definition top_favorites :: "LiveWatchSession list \<Rightarrow> FavoriteChannel list" where
  "top_favorites ss = take 5 (sort_desc f_watchTime (channel_totals ss))"

definition scanned :: "store \<Rightarrow> UserEntry list \<Rightarrow> (string \<times> LiveWatchSession) list" where
  "scanned st allUsers =
     concat (map (\<lambda>user. map (Pair (username user)) (user_sessions st (username user))) allUsers)"

definition global_total_of :: "(string \<times> LiveWatchSession) list \<Rightarrow> string \<Rightarrow> GlobalChannel" where
  "global_total_of ps cid =
    (let g = filter (\<lambda>p. s_channelId (snd p) = cid) ps in
     \<lparr>g_channelId = cid,
      g_channelName = (case g of [] \<Rightarrow> [] | p # _ \<Rightarrow> s_channelName (snd p)),
      g_channelGroup = (case g of [] \<Rightarrow> [] | p # _ \<Rightarrow> s_channelGroup (snd p)),
      g_totalWatchTime = sum_list (map (\<lambda>p. s_duration (snd p)) g),
      g_totalSessions = int (length g),
      g_users = first_occ (map fst g)\<rparr>)"

definition hot_total_of :: "(string \<times> LiveWatchSession) list \<Rightarrow> string \<Rightarrow> HotChannel" where
  "hot_total_of ps cid =
    (let g = filter (\<lambda>p. s_channelId (snd p) = cid) ps in
     \<lparr>h_channelId = cid,
      h_channelName = (case g of [] \<Rightarrow> [] | p # _ \<Rightarrow> s_channelName (snd p)),
      h_channelGroup = (case g of [] \<Rightarrow> [] | p # _ \<Rightarrow> s_channelGroup (snd p)),
      h_totalWatchTime = sum_list (map (\<lambda>p. s_duration (snd p)) g),
      h_totalUsers = int (length (remdups (map fst g))),
      h_totalSessions = int (length g)\<rparr>)"

definition hot_totals :: "(string \<times> LiveWatchSession) list \<Rightarrow> HotChannel list" where
  "hot_totals ps = map (hot_total_of ps) (first_occ (map (\<lambda>p. s_channelId (snd p)) ps))"

definition top_hot :: "(string \<times> LiveWatchSession) list \<Rightarrow> HotChannel list" where
  "top_hot ps = take 10 (sort_desc h_totalWatchTime (hot_totals ps))"

definition user_entry :: "store \<Rightarrow> string \<Rightarrow> UserLiveStats" where
  "user_entry st u =
    \<lparr>u_username = u, u_totalWatchTime = user_total st u, u_totalSessions = user_count st u,
     u_lastWatchTime = user_last st u, favoriteChannels = top_favorites (user_sessions st u),
     recentSessions = take 10 (user_sessions st u)\<rparr>"

definition trend_entry :: "store \<Rightarrow> day \<Rightarrow> DailyTrend" where
  "trend_entry st d =
    \<lparr>t_date = d,
     t_watchTime = (case daily st d of None \<Rightarrow> 0 | Some x \<Rightarrow> d_watchTime x),
     t_sessions = (case daily st d of None \<Rightarrow> 0 | Some x \<Rightarrow> d_sessions x),
     t_users = (case daily st d of None \<Rightarrow> 0 | Some x \<Rightarrow> int (length (d_users x)))\<rparr>"

subsection \<open>Example values\<close>

text \<open>
  The concrete requests, states and stores at which the theorems below are instantiated.
  \<open>ex_state n\<close> is a watch state of channel \<open>c1\<close> with \<open>n\<close> heartbeats; \<open>ex_body2\<close> is a
  request for another channel, \<open>ex_body3\<close> one for the same channel id with another
  channel name and another source; \<open>ex_full\<close> holds a
  session list at its capacity, newest first, its sessions told apart by their end times
  \<open>99, \<dots>, 0\<close>; in \<open>ex_report_store\<close> user \<open>bob\<close> has a session list but no
  stored statistics, and three channels of \<open>alice\<close> tie at 120 seconds.
\<close>

definition ex_body :: LiveHeartbeatRequest where
  "ex_body = \<lparr>sessionId = ''tab1'', b_channelId = ''c1'', b_channelName = ''News'',
     b_channelGroup = ''g1'', b_channelLogo = ''logo1'', b_sourceKey = ''s1'',
     b_sourceName = ''Source 1''\<rparr>"

definition ex_state :: "int \<Rightarrow> LiveWatchState" where
  "ex_state n = (newState ex_body 0)\<lparr>lastHeartbeat := 90, heartbeatCount := n\<rparr>"

definition ex_body2 :: LiveHeartbeatRequest where
  "ex_body2 = ex_body\<lparr>b_channelId := ''c2'', b_channelName := ''Sports''\<rparr>"

definition ex_body3 :: LiveHeartbeatRequest where
  "ex_body3 = ex_body\<lparr>b_channelName := ''News HD'', b_sourceKey := ''s2'',
     b_sourceName := ''Source 2''\<rparr>"

definition ex_watching :: store where
  "ex_watching = empty_store\<lparr>watching := [watchKey ''alice'' ''tab1'' \<mapsto> ex_state 4]\<rparr>"

definition ex_full :: store where
  "ex_full = empty_store\<lparr>sessions :=
     [''alice'' \<mapsto> map (\<lambda>n. session_record (ex_state 2) (int n) 60) (rev [0..<100])]\<rparr>"

definition ex_env :: environment where
  "ex_env = \<lparr>NEXT_PUBLIC_STORAGE_TYPE = ''redis'', USERNAME = ''root'', authInfo = Some ''alice'',
     Users = [\<lparr>username = ''alice'', role = ''admin'', banned = False\<rparr>,
              \<lparr>username = ''bob'', role = ''user'', banned = False\<rparr>]\<rparr>"


definition ex_settle :: "int \<times> string \<times> LiveWatchState \<times> int" where
  "ex_settle = (0, ''alice'', ex_state 1, 0)"

definition ex_settles :: "(int \<times> string \<times> LiveWatchState \<times> int) list" where
  "ex_settles = [(100000, ''alice'', ex_state 4, 100000), (200000, ''bob'', ex_state 2, 200000),
     (300000, ''alice'', ex_state 1, 300000), (400000, ''alice'', ex_state 0, 400000)]"

definition ex_session :: "string \<Rightarrow> string \<Rightarrow> int \<Rightarrow> LiveWatchSession" where
  "ex_session cid name n =
    \<lparr>s_channelId = cid, s_channelName = name, s_channelGroup = ''g1'', s_channelLogo = [],
     s_sourceKey = ''s1'', s_sourceName = [], s_startTime = 0, s_endTime = 100000,
     s_duration = n * 30, s_heartbeatCount = n\<rparr>"

definition ex_report_store :: store where
  "ex_report_store = empty_store\<lparr>
     sessions := [''alice'' \<mapsto> [ex_session ''c1'' ''News'' 2, ex_session ''c2'' ''Sports'' 4,
                     ex_session ''c1'' ''News'' 2, ex_session ''c3'' ''Films'' 4],
                  ''bob'' \<mapsto> [ex_session ''c2'' ''Sports'' 1]],
     stats := [''alice'' \<mapsto> \<lparr>us_totalWatchTime = 360, us_totalSessions = 4, us_lastWatchTime = 100000\<rparr>],
     daily := [1 \<mapsto> \<lparr>d_watchTime = 390, d_sessions = 5, d_users = [''alice'', ''bob'']\<rparr>]\<rparr>"

definition ex_users :: "UserEntry list" where
  "ex_users = [\<lparr>username = ''alice'', role = ''admin'', banned = False\<rparr>,
     \<lparr>username = ''bob'', role = ''user'', banned = False\<rparr>,
     \<lparr>username = ''carol'', role = ''user'', banned = False\<rparr>]"

definition ex_bob :: UserEntry where
  "ex_bob = \<lparr>username = ''bob'', role = ''user'', banned = False\<rparr>"

definition ex_fav :: "FavoriteChannel list" where
  "ex_fav = [\<lparr>f_channelId = ''c1'', f_channelName = ''News'', f_channelGroup = ''g1'',
       f_watchTime = 120, f_watchCount = 2\<rparr>,
     \<lparr>f_channelId = ''c2'', f_channelName = ''Sports'', f_channelGroup = ''g1'',
       f_watchTime = 120, f_watchCount = 1\<rparr>,
     \<lparr>f_channelId = ''c3'', f_channelName = ''Films'', f_channelGroup = ''g1'',
       f_watchTime = 120, f_watchCount = 1\<rparr>]"

definition ex_hot :: "HotChannel list" where
  "ex_hot = [\<lparr>h_channelId = ''c2'', h_channelName = ''Sports'', h_channelGroup = ''g1'',
       h_totalWatchTime = 150, h_totalUsers = 2, h_totalSessions = 2\<rparr>,
     \<lparr>h_channelId = ''c1'', h_channelName = ''News'', h_channelGroup = ''g1'',
       h_totalWatchTime = 120, h_totalUsers = 1, h_totalSessions = 2\<rparr>,
     \<lparr>h_channelId = ''c3'', h_channelName = ''Films'', h_channelGroup = ''g1'',
       h_totalWatchTime = 120, h_totalUsers = 1, h_totalSessions = 1\<rparr>]"

definition ex_trend :: "DailyTrend list" where
  "ex_trend = [\<lparr>t_date = - 5, t_watchTime = 0, t_sessions = 0, t_users = 0\<rparr>,
     \<lparr>t_date = - 4, t_watchTime = 0, t_sessions = 0, t_users = 0\<rparr>,
     \<lparr>t_date = - 3, t_watchTime = 0, t_sessions = 0, t_users = 0\<rparr>,
     \<lparr>t_date = - 2, t_watchTime = 0, t_sessions = 0, t_users = 0\<rparr>,
     \<lparr>t_date = - 1, t_watchTime = 0, t_sessions = 0, t_users = 0\<rparr>,
     \<lparr>t_date = 0, t_watchTime = 0, t_sessions = 0, t_users = 0\<rparr>,
     \<lparr>t_date = 1, t_watchTime = 390, t_sessions = 5, t_users = 2\<rparr>]"

section \<open>Properties\<close>

subsection \<open>Keys and handlers\<close>

lemma key_shapes_disjoint: "key_string a = key_string b \<Longrightarrow> key_shape a = key_shape b"
  by (cases a; cases b) simp_all

lemma POST_heartbeat_valid:
  "storageType env \<noteq> ''localstorage'' \<Longrightarrow> authInfo env = Some user \<Longrightarrow> user \<noteq> [] \<Longrightarrow>
   sessionId body \<noteq> [] \<Longrightarrow> b_channelId body \<noteq> [] \<Longrightarrow> b_channelName body \<noteq> [] \<Longrightarrow>
   b_sourceKey body \<noteq> [] \<Longrightarrow>
     POST_heartbeat env now clock body st = (Success, record_heartbeat now clock user body st)"
  by (simp add: POST_heartbeat_def)

lemma cached_or_built_fresh:
  "forceRefresh \<or> globalStats st = None \<Longrightarrow>
     cached_or_built forceRefresh allUsers now st =
       (Report (build_report allUsers now st),
        st\<lparr>globalStats := Some (build_report allUsers now st)\<rparr>)"
  by (auto simp: cached_or_built_def Let_def)

subsection \<open>Settlement\<close>

lemma in_range_iff: "in_range state \<longleftrightarrow> 1 \<le> heartbeatCount state \<and> heartbeatCount state \<le> 960"
  by (auto simp: in_range_def MIN_SESSION_DURATION_def MAX_SESSION_DURATION_def HEARTBEAT_INTERVAL_def)

lemma settle_out_of_range: "\<not> in_range state \<Longrightarrow> settleWatchSession clock u state endTime st = st"
  by (auto simp: settleWatchSession_def in_range_def Let_def)

lemma settle_sessions:
  "in_range state \<Longrightarrow> sessions (settleWatchSession clock u state endTime st) =
     (sessions st)(u \<mapsto> take 100 (session_record state endTime (heartbeatCount state * HEARTBEAT_INTERVAL) # user_sessions st u))"
  by (auto simp: settleWatchSession_def in_range_def Let_def user_sessions_def)

lemma settle_user_sessions:
  "in_range state \<Longrightarrow> user_sessions (settleWatchSession clock u state endTime st) v =
     (if v = u then take 100 (session_record state endTime (heartbeatCount state * HEARTBEAT_INTERVAL) # user_sessions st u)
      else user_sessions st v)"
  by (simp add: user_sessions_def settle_sessions [unfolded user_sessions_def])

lemma settle_stats:
  "in_range state \<Longrightarrow> stats (settleWatchSession clock u state endTime st) =
     (stats st)(u \<mapsto> \<lparr>us_totalWatchTime = user_total st u + heartbeatCount state * HEARTBEAT_INTERVAL,
        us_totalSessions = (case stats st u of None \<Rightarrow> 0 | Some s \<Rightarrow> us_totalSessions s) + 1,
        us_lastWatchTime = endTime\<rparr>)"
  by (auto simp: settleWatchSession_def in_range_def Let_def user_total_def split: option.splits)

lemma settle_daily:
  "in_range state \<Longrightarrow> \<exists>d. daily (settleWatchSession clock u state endTime st) =
     (daily st)(dateKey clock \<mapsto> d) \<and>
     d_watchTime d = daily_total st (dateKey clock) + heartbeatCount state * HEARTBEAT_INTERVAL"
  by (auto simp: settleWatchSession_def in_range_def Let_def daily_total_def split: option.splits)

lemma settle_channel:
  "in_range state \<Longrightarrow> \<exists>c. channel (settleWatchSession clock u state endTime st) =
     (channel st)(channelId state \<mapsto> c) \<and>
     c_totalWatchTime c = channel_total st (channelId state) + heartbeatCount state * HEARTBEAT_INTERVAL"
  by (auto simp: settleWatchSession_def in_range_def Let_def channel_total_def split: option.splits)

lemma settle_watching: "watching (settleWatchSession clock u state endTime st) = watching st"
  by (simp add: settleWatchSession_def Let_def)

lemma settle_globalStats: "globalStats (settleWatchSession clock u state endTime st) = globalStats st"
  by (simp add: settleWatchSession_def Let_def)

lemma settle_user_total:
  "in_range state \<Longrightarrow> user_total (settleWatchSession clock u state endTime st) v =
     (if v = u then user_total st u + heartbeatCount state * HEARTBEAT_INTERVAL else user_total st v)"
  by (simp add: user_total_def [of "settleWatchSession clock u state endTime st"] settle_stats)
     (simp add: user_total_def)

lemma settle_user_count:
  "in_range state \<Longrightarrow> user_count (settleWatchSession clock u state endTime st) v =
     (if v = u then user_count st u + 1 else user_count st v)"
  by (simp add: user_count_def [of "settleWatchSession clock u state endTime st"] settle_stats)
     (simp add: user_count_def)

lemma settle_user_last:
  "in_range state \<Longrightarrow> user_last (settleWatchSession clock u state endTime st) u = endTime"
  by (simp add: user_last_def settle_stats)

lemma settle_daily_record:
  "in_range state \<Longrightarrow>
     daily_total (settleWatchSession clock u state endTime st) (dateKey clock) =
       daily_total st (dateKey clock) + heartbeatCount state * HEARTBEAT_INTERVAL \<and>
     daily_count (settleWatchSession clock u state endTime st) (dateKey clock) =
       daily_count st (dateKey clock) + 1 \<and>
     daily_users (settleWatchSession clock u state endTime st) (dateKey clock) =
       (if u \<in> set (daily_users st (dateKey clock)) then daily_users st (dateKey clock)
        else daily_users st (dateKey clock) @ [u])"
  by (auto simp: settleWatchSession_def in_range_def Let_def daily_total_def daily_count_def
      daily_users_def split: option.splits)

lemma settle_channel_record:
  "in_range state \<Longrightarrow>
     channel_total (settleWatchSession clock u state endTime st) (channelId state) =
       channel_total st (channelId state) + heartbeatCount state * HEARTBEAT_INTERVAL \<and>
     channel_count (settleWatchSession clock u state endTime st) (channelId state) =
       channel_count st (channelId state) + 1 \<and>
     channel_users (settleWatchSession clock u state endTime st) (channelId state) =
       (if u \<in> set (channel_users st (channelId state)) then channel_users st (channelId state)
        else channel_users st (channelId state) @ [u])"
  by (auto simp: settleWatchSession_def in_range_def Let_def channel_total_def channel_count_def
      channel_users_def split: option.splits)

lemma readers_watching_update:
  "user_sessions (st\<lparr>watching := w\<rparr>) = user_sessions st"
  "user_total (st\<lparr>watching := w\<rparr>) = user_total st"
  "user_count (st\<lparr>watching := w\<rparr>) = user_count st"
  "user_last (st\<lparr>watching := w\<rparr>) = user_last st"
  "daily_total (st\<lparr>watching := w\<rparr>) = daily_total st"
  "daily_count (st\<lparr>watching := w\<rparr>) = daily_count st"
  "daily_users (st\<lparr>watching := w\<rparr>) = daily_users st"
  "channel_total (st\<lparr>watching := w\<rparr>) = channel_total st"
  "channel_count (st\<lparr>watching := w\<rparr>) = channel_count st"
  "channel_users (st\<lparr>watching := w\<rparr>) = channel_users st"
  by (simp_all add: fun_eq_iff user_sessions_def user_total_def user_count_def user_last_def
      daily_total_def daily_count_def daily_users_def channel_total_def channel_count_def
      channel_users_def)

lemma ex_state_simps:
  "heartbeatCount (ex_state n) = n" "channelId (ex_state n) = ''c1''"
  by (simp_all add: ex_state_def newState_def ex_body_def)

lemma in_range_ex: "in_range (ex_state 1)" "in_range (ex_state 4)"
  by (simp_all add: in_range_iff ex_state_simps)

lemma ex_watching_simps:
  "watching ex_watching (watchKey ''alice'' ''tab1'') = Some (ex_state 4)"
  "user_sessions ex_watching u = []"
  by (simp_all add: ex_watching_def user_sessions_def empty_store_def)

text \<open>
  C2. Every session that a settlement adds to the user's list has
  \<open>duration = heartbeatCount * HEARTBEAT_INTERVAL\<close>, a non-negative multiple of the
  interval within \<open>[MIN_SESSION_DURATION, MAX_SESSION_DURATION]\<close>, both bounds included:
  one heartbeat gives a recorded session of 30 seconds, 960 heartbeats one of 8 hours.
  A settlement whose duration is below the minimum or above the maximum returns the
  store as it was: no session, no user, daily or channel statistics are written.
\<close>

theorem settle_duration_bounds:
  "(in_range state \<longrightarrow>
      (\<exists>rest. sessions (settleWatchSession clock u state endTime st) u =
          Some (session_record state endTime (heartbeatCount state * HEARTBEAT_INTERVAL) # rest)) \<and>
      (\<forall>s \<in> set (user_sessions (settleWatchSession clock u state endTime st) u).
         s \<notin> set (user_sessions st u) \<longrightarrow>
           s_duration s = s_heartbeatCount s * HEARTBEAT_INTERVAL \<and>
           s_heartbeatCount s = heartbeatCount state \<and>
           0 \<le> s_duration s \<and> HEARTBEAT_INTERVAL dvd s_duration s \<and>
           MIN_SESSION_DURATION \<le> s_duration s \<and> s_duration s \<le> MAX_SESSION_DURATION)) \<and>
   (heartbeatCount state = 1 \<longrightarrow> in_range state \<and>
      s_duration (session_record state endTime (heartbeatCount state * HEARTBEAT_INTERVAL)) =
        MIN_SESSION_DURATION) \<and>
   (heartbeatCount state = 960 \<longrightarrow> in_range state \<and>
      s_duration (session_record state endTime (heartbeatCount state * HEARTBEAT_INTERVAL)) =
        MAX_SESSION_DURATION) \<and>
   (heartbeatCount state * HEARTBEAT_INTERVAL < MIN_SESSION_DURATION \<or>
    heartbeatCount state * HEARTBEAT_INTERVAL > MAX_SESSION_DURATION \<longrightarrow>
      settleWatchSession clock u state endTime st = st)"
proof (intro conjI impI)
  assume r: "in_range state"
  show "\<exists>rest. sessions (settleWatchSession clock u state endTime st) u =
          Some (session_record state endTime (heartbeatCount state * HEARTBEAT_INTERVAL) # rest)"
    by (simp add: settle_sessions [OF r] take_Cons')
  show "\<forall>s \<in> set (user_sessions (settleWatchSession clock u state endTime st) u).
         s \<notin> set (user_sessions st u) \<longrightarrow>
           s_duration s = s_heartbeatCount s * HEARTBEAT_INTERVAL \<and>
           s_heartbeatCount s = heartbeatCount state \<and>
           0 \<le> s_duration s \<and> HEARTBEAT_INTERVAL dvd s_duration s \<and>
           MIN_SESSION_DURATION \<le> s_duration s \<and> s_duration s \<le> MAX_SESSION_DURATION"
  proof (intro ballI impI)
    fix s
    assume a: "s \<in> set (user_sessions (settleWatchSession clock u state endTime st) u)"
      and b: "s \<notin> set (user_sessions st u)"
    from a have "s \<in> set (session_record state endTime (heartbeatCount state * HEARTBEAT_INTERVAL) # user_sessions st u)"
      using in_set_takeD by (fastforce simp: settle_user_sessions [OF r])
    with b have "s = session_record state endTime (heartbeatCount state * HEARTBEAT_INTERVAL)"
      by simp
    with r show "s_duration s = s_heartbeatCount s * HEARTBEAT_INTERVAL \<and>
           s_heartbeatCount s = heartbeatCount state \<and>
           0 \<le> s_duration s \<and> HEARTBEAT_INTERVAL dvd s_duration s \<and>
           MIN_SESSION_DURATION \<le> s_duration s \<and> s_duration s \<le> MAX_SESSION_DURATION"
      by (simp add: session_record_def in_range_def MIN_SESSION_DURATION_def)
  qed
next
  assume "heartbeatCount state = 1"
  then show "in_range state" by (simp add: in_range_iff)
next
  assume "heartbeatCount state = 1"
  then show "s_duration (session_record state endTime (heartbeatCount state * HEARTBEAT_INTERVAL)) =
      MIN_SESSION_DURATION"
    by (simp add: session_record_def HEARTBEAT_INTERVAL_def MIN_SESSION_DURATION_def)
next
  assume "heartbeatCount state = 960"
  then show "in_range state" by (simp add: in_range_iff)
next
  assume "heartbeatCount state = 960"
  then show "s_duration (session_record state endTime (heartbeatCount state * HEARTBEAT_INTERVAL)) =
      MAX_SESSION_DURATION"
    by (simp add: session_record_def HEARTBEAT_INTERVAL_def MAX_SESSION_DURATION_def)
next
  assume "heartbeatCount state * HEARTBEAT_INTERVAL < MIN_SESSION_DURATION \<or>
    heartbeatCount state * HEARTBEAT_INTERVAL > MAX_SESSION_DURATION"
  then have "\<not> in_range state" by (auto simp: in_range_def)
  then show "settleWatchSession clock u state endTime st = st" by (rule settle_out_of_range)
qed

theorem settle_duration_bounds_witness:
  "in_range (ex_state 1) \<and>
   sessions (settleWatchSession 100000 ''alice'' (ex_state 1) 100000 empty_store) ''alice'' =
     Some [session_record (ex_state 1) 100000 30] \<and>
   s_duration (session_record (ex_state 1) 100000 30) = 30 \<and>
   in_range (ex_state 960) \<and>
   sessions (settleWatchSession 100000 ''alice'' (ex_state 960) 100000 empty_store) ''alice'' =
     Some [session_record (ex_state 960) 100000 28800] \<and>
   heartbeatCount (ex_state 0) * HEARTBEAT_INTERVAL < MIN_SESSION_DURATION \<and>
   settleWatchSession 100000 ''alice'' (ex_state 0) 100000 empty_store = empty_store \<and>
   heartbeatCount (ex_state 961) * HEARTBEAT_INTERVAL > MAX_SESSION_DURATION \<and>
   settleWatchSession 100000 ''alice'' (ex_state 961) 100000 empty_store = empty_store"
proof -
  have r: "in_range (ex_state 1)" "in_range (ex_state 960)"
    by (simp_all add: in_range_iff ex_state_simps)
  have lo: "heartbeatCount (ex_state 0) * HEARTBEAT_INTERVAL < MIN_SESSION_DURATION"
    by (simp add: ex_state_simps HEARTBEAT_INTERVAL_def MIN_SESSION_DURATION_def)
  have hi: "heartbeatCount (ex_state 961) * HEARTBEAT_INTERVAL > MAX_SESSION_DURATION"
    by (simp add: ex_state_simps HEARTBEAT_INTERVAL_def MAX_SESSION_DURATION_def)
  have e: "user_sessions empty_store ''alice'' = []"
    by (simp add: user_sessions_def empty_store_def)
  note t = settle_duration_bounds [of _ 100000 "''alice''" 100000 empty_store]
  from r(1) t [of "ex_state 1"]
  have a: "sessions (settleWatchSession 100000 ''alice'' (ex_state 1) 100000 empty_store) ''alice'' =
     Some [session_record (ex_state 1) 100000 30]"
    by (simp add: settle_sessions e ex_state_simps HEARTBEAT_INTERVAL_def)
  from r(2) t [of "ex_state 960"]
  have b: "sessions (settleWatchSession 100000 ''alice'' (ex_state 960) 100000 empty_store) ''alice'' =
     Some [session_record (ex_state 960) 100000 28800]"
    by (simp add: settle_sessions e ex_state_simps HEARTBEAT_INTERVAL_def)
  from lo t [of "ex_state 0"]
  have c: "settleWatchSession 100000 ''alice'' (ex_state 0) 100000 empty_store = empty_store"
    by blast
  from hi t [of "ex_state 961"]
  have d: "settleWatchSession 100000 ''alice'' (ex_state 961) 100000 empty_store = empty_store"
    by blast
  from a b c d r lo hi show ?thesis by (simp add: session_record_def)
qed

text \<open>
  C6. A settlement that persists a session puts it at the front of the user's list and
  keeps the first 100 entries: the stored list has at most 100 entries, and a list that
  held 100 entries still holds 100, its last (oldest) entry gone.
\<close>

theorem settle_prepends_capped:
  "in_range state \<Longrightarrow>
     user_sessions (settleWatchSession clock u state endTime st) u =
       take 100 (session_record state endTime (heartbeatCount state * HEARTBEAT_INTERVAL) # user_sessions st u) \<and>
     hd (user_sessions (settleWatchSession clock u state endTime st) u) =
       session_record state endTime (heartbeatCount state * HEARTBEAT_INTERVAL) \<and>
     length (user_sessions (settleWatchSession clock u state endTime st) u) \<le> 100 \<and>
     (length (user_sessions st u) < 100 \<longrightarrow>
        user_sessions (settleWatchSession clock u state endTime st) u =
          session_record state endTime (heartbeatCount state * HEARTBEAT_INTERVAL) # user_sessions st u) \<and>
     (length (user_sessions st u) = 100 \<longrightarrow>
        length (user_sessions (settleWatchSession clock u state endTime st) u) = 100 \<and>
        user_sessions (settleWatchSession clock u state endTime st) u =
          session_record state endTime (heartbeatCount state * HEARTBEAT_INTERVAL) # butlast (user_sessions st u))"
  by (simp add: settle_user_sessions take_Cons' butlast_conv_take)

theorem settle_prepends_capped_witness:
  "in_range (ex_state 1) \<and>
   length (user_sessions empty_store ''alice'') < 100 \<and>
   user_sessions (settleWatchSession 7 ''alice'' (ex_state 1) 7 empty_store) ''alice'' =
     [session_record (ex_state 1) 7 30] \<and>
   length (user_sessions ex_full ''alice'') = 100 \<and>
   last (user_sessions ex_full ''alice'') = session_record (ex_state 2) 0 60 \<and>
   length (user_sessions (settleWatchSession 7 ''alice'' (ex_state 1) 7 ex_full) ''alice'') = 100 \<and>
   user_sessions (settleWatchSession 7 ''alice'' (ex_state 1) 7 ex_full) ''alice'' =
     session_record (ex_state 1) 7 30 #
     map (\<lambda>n. session_record (ex_state 2) (int n) 60) (rev [1..<100])"
proof -
  have e: "user_sessions empty_store ''alice'' = []"
    by (simp add: user_sessions_def empty_store_def)
  have f: "user_sessions ex_full ''alice'' =
      map (\<lambda>n. session_record (ex_state 2) (int n) 60) (rev [0..<100])"
    by (simp add: user_sessions_def ex_full_def)
  have u: "[0..<100] = 0 # [1..<100]"
    by (simp add: upt_conv_Cons)
  have len: "length (user_sessions ex_full ''alice'') = 100"
    by (simp add: f)
  have l: "last (user_sessions ex_full ''alice'') = session_record (ex_state 2) 0 60"
    unfolding f u by simp
  have b: "butlast (user_sessions ex_full ''alice'') =
      map (\<lambda>n. session_record (ex_state 2) (int n) 60) (rev [1..<100])"
    unfolding f u by simp
  have h: "heartbeatCount (ex_state 1) * HEARTBEAT_INTERVAL = 30"
    by (simp add: ex_state_simps HEARTBEAT_INTERVAL_def)
  note t = settle_prepends_capped [OF in_range_ex(1), of 7 "''alice''" 7, unfolded h]
  from t [of empty_store] have 1:
    "user_sessions (settleWatchSession 7 ''alice'' (ex_state 1) 7 empty_store) ''alice'' =
       [session_record (ex_state 1) 7 30]"
    by (simp add: e)
  from t [of ex_full] len have 2:
    "length (user_sessions (settleWatchSession 7 ''alice'' (ex_state 1) 7 ex_full) ''alice'') = 100"
    and 3: "user_sessions (settleWatchSession 7 ''alice'' (ex_state 1) 7 ex_full) ''alice'' =
       session_record (ex_state 1) 7 30 # butlast (user_sessions ex_full ''alice'')"
    by blast+
  from 1 2 3 len l show ?thesis
    unfolding b by (simp add: in_range_ex e)
qed

text \<open>
  C4, as the code has it. A settlement that persists a session uses one duration,
  \<open>heartbeatCount * HEARTBEAT_INTERVAL\<close>, for the session record, the user total, the daily
  total and the channel total. The daily record it updates is the one of the UTC day of
  \<open>clock\<close>, the time read inside the settlement, and no other daily record changes; the
  parameter \<open>endTime\<close> plays no part in the daily key.
\<close>

theorem settle_same_duration_clock_day:
  "in_range state \<Longrightarrow>
     (\<exists>rest. sessions (settleWatchSession clock u state endTime st) u =
        Some (session_record state endTime (heartbeatCount state * HEARTBEAT_INTERVAL) # rest)) \<and>
     s_duration (session_record state endTime (heartbeatCount state * HEARTBEAT_INTERVAL)) =
       heartbeatCount state * HEARTBEAT_INTERVAL \<and>
     user_total (settleWatchSession clock u state endTime st) u =
       user_total st u + heartbeatCount state * HEARTBEAT_INTERVAL \<and>
     daily_total (settleWatchSession clock u state endTime st) (dateKey clock) =
       daily_total st (dateKey clock) + heartbeatCount state * HEARTBEAT_INTERVAL \<and>
     (\<forall>k. k \<noteq> dateKey clock \<longrightarrow>
        daily (settleWatchSession clock u state endTime st) k = daily st k) \<and>
     channel_total (settleWatchSession clock u state endTime st) (channelId state) =
       channel_total st (channelId state) + heartbeatCount state * HEARTBEAT_INTERVAL"
proof -
  assume r: "in_range state"
  from settle_daily [OF r, of clock u endTime st] obtain d where
    d: "daily (settleWatchSession clock u state endTime st) = (daily st)(dateKey clock \<mapsto> d)"
       "d_watchTime d = daily_total st (dateKey clock) + heartbeatCount state * HEARTBEAT_INTERVAL"
    by blast
  from settle_channel [OF r, of clock u endTime st] obtain c where
    c: "channel (settleWatchSession clock u state endTime st) = (channel st)(channelId state \<mapsto> c)"
       "c_totalWatchTime c = channel_total st (channelId state) + heartbeatCount state * HEARTBEAT_INTERVAL"
    by blast
  have 1: "\<exists>rest. sessions (settleWatchSession clock u state endTime st) u =
        Some (session_record state endTime (heartbeatCount state * HEARTBEAT_INTERVAL) # rest)"
    by (simp add: settle_sessions [OF r] take_Cons')
  have 2: "s_duration (session_record state endTime (heartbeatCount state * HEARTBEAT_INTERVAL)) =
       heartbeatCount state * HEARTBEAT_INTERVAL"
    by (simp add: session_record_def)
  have 3: "user_total (settleWatchSession clock u state endTime st) u =
       user_total st u + heartbeatCount state * HEARTBEAT_INTERVAL"
    by (simp add: user_total_def [of "settleWatchSession clock u state endTime st"] settle_stats [OF r])
  have 4: "daily_total (settleWatchSession clock u state endTime st) (dateKey clock) =
       daily_total st (dateKey clock) + heartbeatCount state * HEARTBEAT_INTERVAL"
    by (simp add: daily_total_def [of "settleWatchSession clock u state endTime st"] d)
  have 5: "\<forall>k. k \<noteq> dateKey clock \<longrightarrow>
        daily (settleWatchSession clock u state endTime st) k = daily st k"
    by (simp add: d)
  have 6: "channel_total (settleWatchSession clock u state endTime st) (channelId state) =
       channel_total st (channelId state) + heartbeatCount state * HEARTBEAT_INTERVAL"
    by (simp add: channel_total_def [of "settleWatchSession clock u state endTime st"] c)
  from 1 2 3 4 5 6 show ?thesis by blast
qed

theorem settle_same_duration_clock_day_witness:
  "in_range (ex_state 4) \<and>
   sessions (settleWatchSession 86400000 ''alice'' (ex_state 4) 86399999 empty_store) ''alice'' =
     Some [session_record (ex_state 4) 86399999 120] \<and>
   user_total (settleWatchSession 86400000 ''alice'' (ex_state 4) 86399999 empty_store) ''alice'' = 120 \<and>
   daily_total (settleWatchSession 86400000 ''alice'' (ex_state 4) 86399999 empty_store) 1 = 120 \<and>
   daily (settleWatchSession 86400000 ''alice'' (ex_state 4) 86399999 empty_store) 0 = None \<and>
   channel_total (settleWatchSession 86400000 ''alice'' (ex_state 4) 86399999 empty_store) ''c1'' = 120"
proof -
  have h: "heartbeatCount (ex_state 4) * HEARTBEAT_INTERVAL = 120"
    by (simp add: ex_state_simps HEARTBEAT_INTERVAL_def)
  have e: "user_total empty_store ''alice'' = 0" "daily_total empty_store 1 = 0"
    "channel_total empty_store ''c1'' = 0" "daily empty_store 0 = None"
    "user_sessions empty_store ''alice'' = []"
    by (simp_all add: user_total_def daily_total_def channel_total_def empty_store_def user_sessions_def)
  have k: "dateKey 86400000 = 1" by (simp add: dateKey_def)
  have s: "sessions (settleWatchSession 86400000 ''alice'' (ex_state 4) 86399999 empty_store) ''alice'' =
     Some [session_record (ex_state 4) 86399999 120]"
    by (simp add: settle_sessions [OF in_range_ex(2)] e ex_state_simps HEARTBEAT_INTERVAL_def)
  from settle_same_duration_clock_day [OF in_range_ex(2), of 86400000 "''alice''" 86399999 empty_store] s
  show ?thesis
    by (simp add: in_range_ex e k ex_state_simps HEARTBEAT_INTERVAL_def)
qed

text \<open>
  C4 as stated fails: a settlement with \<open>endTime\<close> in the last millisecond of day 0,
  running when the clock reads the first millisecond of day 1, leaves the daily record of
  \<open>endTime\<close>'s day absent and writes the one of day 1.
\<close>

theorem settle_daily_key_counterexample:
  "dateKey 86399999 = 0 \<and> dateKey 86400000 = 1 \<and> in_range (ex_state 4) \<and>
   daily (settleWatchSession 86400000 ''alice'' (ex_state 4) 86399999 empty_store) (dateKey 86399999) = None \<and>
   daily (settleWatchSession 86400000 ''alice'' (ex_state 4) 86399999 empty_store) (dateKey 86400000) =
     Some \<lparr>d_watchTime = 120, d_sessions = 1, d_users = [''alice'']\<rparr>"
  by (simp add: dateKey_def in_range_iff ex_state_simps settleWatchSession_def Let_def
      HEARTBEAT_INTERVAL_def MIN_SESSION_DURATION_def MAX_SESSION_DURATION_def empty_store_def)

subsection \<open>Channel switch and end of watch\<close>

lemma record_heartbeat_same:
  "watching st (watchKey u (sessionId body)) = Some s \<Longrightarrow> channelId s = b_channelId body \<Longrightarrow>
     record_heartbeat now clock u body st =
       st\<lparr>watching := (watching st)(watchKey u (sessionId body) \<mapsto>
            s\<lparr>lastHeartbeat := now, heartbeatCount := heartbeatCount s + 1\<rparr>)\<rparr>"
  by (simp add: record_heartbeat_def Let_def)


lemma ex_body3_simps:
  "sessionId ex_body3 = ''tab1''" "b_channelId ex_body3 = ''c1''"
  "b_channelName ex_body3 = ''News HD''" "b_sourceKey ex_body3 = ''s2''"
  by (simp_all add: ex_body3_def ex_body_def)

text \<open>
  C1, as the code has it. A heartbeat that finds a watch state \<open>A\<close> under its key and
  carries a channel id other than that of \<open>A\<close> settles \<open>A\<close> once, with \<open>endTime = now\<close>, and
  then stores a new state for the incoming channel under the same key, with
  \<open>heartbeatCount = 1\<close> and \<open>startTime = lastHeartbeat = now\<close>. When the duration
  \<open>heartbeatCount A * HEARTBEAT_INTERVAL\<close> is within bounds, the user's list gains exactly
  the session of \<open>A\<close> at its front, with that duration and end time \<open>now\<close>; the user's
  total, the total of the clock's day and the total of channel \<open>A\<close> grow by that
  duration, their session counts by one, and the user's last watch time is \<open>now\<close>. When
  it is out of bounds, nothing but the watch key changes.
\<close>

theorem heartbeat_channel_switch:
  "watching st (watchKey u (sessionId body)) = Some A \<Longrightarrow> channelId A \<noteq> b_channelId body \<Longrightarrow>
     record_heartbeat now clock u body st =
       (settleWatchSession clock u A now st)
         \<lparr>watching := (watching st)(watchKey u (sessionId body) \<mapsto> newState body now)\<rparr> \<and>
     (in_range A \<longrightarrow>
        user_sessions (record_heartbeat now clock u body st) u =
          take 100 (session_record A now (heartbeatCount A * HEARTBEAT_INTERVAL) # user_sessions st u) \<and>
        s_channelId (session_record A now (heartbeatCount A * HEARTBEAT_INTERVAL)) = channelId A \<and>
        s_endTime (session_record A now (heartbeatCount A * HEARTBEAT_INTERVAL)) = now \<and>
        s_duration (session_record A now (heartbeatCount A * HEARTBEAT_INTERVAL)) =
          heartbeatCount A * HEARTBEAT_INTERVAL \<and>
        user_total (record_heartbeat now clock u body st) u =
          user_total st u + heartbeatCount A * HEARTBEAT_INTERVAL \<and>
        user_count (record_heartbeat now clock u body st) u = user_count st u + 1 \<and>
        user_last (record_heartbeat now clock u body st) u = now \<and>
        daily_total (record_heartbeat now clock u body st) (dateKey clock) =
          daily_total st (dateKey clock) + heartbeatCount A * HEARTBEAT_INTERVAL \<and>
        daily_count (record_heartbeat now clock u body st) (dateKey clock) =
          daily_count st (dateKey clock) + 1 \<and>
        channel_total (record_heartbeat now clock u body st) (channelId A) =
          channel_total st (channelId A) + heartbeatCount A * HEARTBEAT_INTERVAL \<and>
        channel_count (record_heartbeat now clock u body st) (channelId A) =
          channel_count st (channelId A) + 1) \<and>
     (\<not> in_range A \<longrightarrow>
        record_heartbeat now clock u body st =
          st\<lparr>watching := (watching st)(watchKey u (sessionId body) \<mapsto> newState body now)\<rparr>) \<and>
     watching (record_heartbeat now clock u body st) =
       (watching st)(watchKey u (sessionId body) \<mapsto> newState body now) \<and>
     watching (record_heartbeat now clock u body st) (watchKey u (sessionId body)) =
       Some (newState body now) \<and>
     channelId (newState body now) = b_channelId body \<and>
     heartbeatCount (newState body now) = 1 \<and>
     startTime (newState body now) = now \<and>
     lastHeartbeat (newState body now) = now"
proof -
  assume a: "watching st (watchKey u (sessionId body)) = Some A" and b: "channelId A \<noteq> b_channelId body"
  have eq: "record_heartbeat now clock u body st =
       (settleWatchSession clock u A now st)
         \<lparr>watching := (watching st)(watchKey u (sessionId body) \<mapsto> newState body now)\<rparr>"
    using a b by (simp add: record_heartbeat_def Let_def settle_watching)
  have in_r: "user_sessions (record_heartbeat now clock u body st) u =
          take 100 (session_record A now (heartbeatCount A * HEARTBEAT_INTERVAL) # user_sessions st u) \<and>
        s_channelId (session_record A now (heartbeatCount A * HEARTBEAT_INTERVAL)) = channelId A \<and>
        s_endTime (session_record A now (heartbeatCount A * HEARTBEAT_INTERVAL)) = now \<and>
        s_duration (session_record A now (heartbeatCount A * HEARTBEAT_INTERVAL)) =
          heartbeatCount A * HEARTBEAT_INTERVAL \<and>
        user_total (record_heartbeat now clock u body st) u =
          user_total st u + heartbeatCount A * HEARTBEAT_INTERVAL \<and>
        user_count (record_heartbeat now clock u body st) u = user_count st u + 1 \<and>
        user_last (record_heartbeat now clock u body st) u = now \<and>
        daily_total (record_heartbeat now clock u body st) (dateKey clock) =
          daily_total st (dateKey clock) + heartbeatCount A * HEARTBEAT_INTERVAL \<and>
        daily_count (record_heartbeat now clock u body st) (dateKey clock) =
          daily_count st (dateKey clock) + 1 \<and>
        channel_total (record_heartbeat now clock u body st) (channelId A) =
          channel_total st (channelId A) + heartbeatCount A * HEARTBEAT_INTERVAL \<and>
        channel_count (record_heartbeat now clock u body st) (channelId A) =
          channel_count st (channelId A) + 1"
    if r: "in_range A"
    unfolding eq readers_watching_update
    using settle_daily_record [OF r, of clock u now st] settle_channel_record [OF r, of clock u now st]
    by (simp add: settle_user_sessions [OF r] settle_user_total [OF r] settle_user_count [OF r]
        settle_user_last [OF r] session_record_def)
  have out_r: "record_heartbeat now clock u body st =
          st\<lparr>watching := (watching st)(watchKey u (sessionId body) \<mapsto> newState body now)\<rparr>"
    if "\<not> in_range A"
    using that by (simp add: eq settle_out_of_range)
  have w: "watching (record_heartbeat now clock u body st) =
       (watching st)(watchKey u (sessionId body) \<mapsto> newState body now)"
    by (simp add: eq)
  have n: "channelId (newState body now) = b_channelId body \<and>
     heartbeatCount (newState body now) = 1 \<and>
     startTime (newState body now) = now \<and>
     lastHeartbeat (newState body now) = now"
    by (simp add: newState_def)
  have w2: "watching (record_heartbeat now clock u body st) (watchKey u (sessionId body)) =
       Some (newState body now)"
    by (simp add: w)
  from eq in_r out_r w w2 n show ?thesis
    by blast
qed

theorem heartbeat_channel_switch_witness:
  "watching ex_watching (watchKey ''alice'' (sessionId ex_body2)) = Some (ex_state 4) \<and>
   channelId (ex_state 4) \<noteq> b_channelId ex_body2 \<and> in_range (ex_state 4) \<and>
   \<not> in_range (ex_state 0) \<and>
   record_heartbeat 100000 100001 ''alice'' ex_body2 ex_watching =
     \<lparr>watching = [watchKey ''alice'' ''tab1'' \<mapsto> newState ex_body2 100000],
      sessions = [''alice'' \<mapsto> [session_record (ex_state 4) 100000 120]],
      stats = [''alice'' \<mapsto> \<lparr>us_totalWatchTime = 120, us_totalSessions = 1, us_lastWatchTime = 100000\<rparr>],
      daily = [0 \<mapsto> \<lparr>d_watchTime = 120, d_sessions = 1, d_users = [''alice'']\<rparr>],
      channel = [''c1'' \<mapsto> \<lparr>c_channelId = ''c1'', c_channelName = ''News'', c_channelGroup = ''g1'',
         c_totalWatchTime = 120, c_totalSessions = 1, c_users = [''alice'']\<rparr>],
      globalStats = None\<rparr> \<and>
   user_sessions (record_heartbeat 100000 100001 ''alice'' ex_body2 ex_watching) ''alice'' =
     [session_record (ex_state 4) 100000 120] \<and>
   user_total (record_heartbeat 100000 100001 ''alice'' ex_body2 ex_watching) ''alice'' = 120 \<and>
   heartbeatCount (newState ex_body2 100000) = 1 \<and>
   record_heartbeat 100000 100001 ''alice'' ex_body2
       (empty_store\<lparr>watching := [watchKey ''alice'' ''tab1'' \<mapsto> ex_state 0]\<rparr>) =
     empty_store\<lparr>watching := [watchKey ''alice'' ''tab1'' \<mapsto> newState ex_body2 100000]\<rparr>"
proof -
  let ?st0 = "empty_store\<lparr>watching := [watchKey ''alice'' ''tab1'' \<mapsto> ex_state 0]\<rparr>"
  have s: "sessionId ex_body2 = ''tab1''" "b_channelId ex_body2 = ''c2''"
    by (simp_all add: ex_body2_def ex_body_def)
  have a: "watching ex_watching (watchKey ''alice'' (sessionId ex_body2)) = Some (ex_state 4)"
    by (simp add: s ex_watching_simps)
  have a0: "watching ?st0 (watchKey ''alice'' (sessionId ex_body2)) = Some (ex_state 0)"
    by (simp add: s)
  have b: "channelId (ex_state n) \<noteq> b_channelId ex_body2" for n
    by (simp add: ex_state_simps s)
  have r0: "\<not> in_range (ex_state 0)" by (simp add: in_range_iff ex_state_simps)
  have e: "user_sessions ex_watching ''alice'' = []" "user_total ex_watching ''alice'' = 0"
    by (simp_all add: ex_watching_def user_sessions_def user_total_def empty_store_def)
  have full: "(settleWatchSession 100001 ''alice'' (ex_state 4) 100000 ex_watching)
       \<lparr>watching := (watching ex_watching)(watchKey ''alice'' ''tab1'' \<mapsto> newState ex_body2 100000)\<rparr> =
     \<lparr>watching = [watchKey ''alice'' ''tab1'' \<mapsto> newState ex_body2 100000],
      sessions = [''alice'' \<mapsto> [session_record (ex_state 4) 100000 120]],
      stats = [''alice'' \<mapsto> \<lparr>us_totalWatchTime = 120, us_totalSessions = 1, us_lastWatchTime = 100000\<rparr>],
      daily = [0 \<mapsto> \<lparr>d_watchTime = 120, d_sessions = 1, d_users = [''alice'']\<rparr>],
      channel = [''c1'' \<mapsto> \<lparr>c_channelId = ''c1'', c_channelName = ''News'', c_channelGroup = ''g1'',
         c_totalWatchTime = 120, c_totalSessions = 1, c_users = [''alice'']\<rparr>],
      globalStats = None\<rparr>"
    by (simp add: settleWatchSession_def Let_def ex_state_def newState_def ex_body_def
        HEARTBEAT_INTERVAL_def MIN_SESSION_DURATION_def MAX_SESSION_DURATION_def
        ex_watching_def empty_store_def dateKey_def session_record_def)
  note t = heartbeat_channel_switch [OF a b, of 100000 100001, unfolded s]
  from t in_range_ex(2)
  have 1: "record_heartbeat 100000 100001 ''alice'' ex_body2 ex_watching =
       (settleWatchSession 100001 ''alice'' (ex_state 4) 100000 ex_watching)
         \<lparr>watching := (watching ex_watching)(watchKey ''alice'' ''tab1'' \<mapsto> newState ex_body2 100000)\<rparr>"
    and 2: "user_sessions (record_heartbeat 100000 100001 ''alice'' ex_body2 ex_watching) ''alice'' =
       take 100 (session_record (ex_state 4) 100000 (heartbeatCount (ex_state 4) * HEARTBEAT_INTERVAL) #
         user_sessions ex_watching ''alice'')"
    and 3: "user_total (record_heartbeat 100000 100001 ''alice'' ex_body2 ex_watching) ''alice'' =
       user_total ex_watching ''alice'' + heartbeatCount (ex_state 4) * HEARTBEAT_INTERVAL"
    and 4: "heartbeatCount (newState ex_body2 100000) = 1"
    by blast+
  note t0 = heartbeat_channel_switch [OF a0 b, of 100000 100001, unfolded s]
  from t0 r0
  have 5: "record_heartbeat 100000 100001 ''alice'' ex_body2 ?st0 =
      ?st0\<lparr>watching := (watching ?st0)(watchKey ''alice'' ''tab1'' \<mapsto> newState ex_body2 100000)\<rparr>"
    by blast
  have 6: "?st0\<lparr>watching := (watching ?st0)(watchKey ''alice'' ''tab1'' \<mapsto> newState ex_body2 100000)\<rparr> =
      empty_store\<lparr>watching := [watchKey ''alice'' ''tab1'' \<mapsto> newState ex_body2 100000]\<rparr>"
    by simp
  have us: "user_sessions (record_heartbeat 100000 100001 ''alice'' ex_body2 ex_watching) ''alice'' =
       [session_record (ex_state 4) 100000 120]"
    unfolding 2 by (simp add: e ex_state_simps HEARTBEAT_INTERVAL_def)
  have ut: "user_total (record_heartbeat 100000 100001 ''alice'' ex_body2 ex_watching) ''alice'' = 120"
    unfolding 3 by (simp add: e ex_state_simps HEARTBEAT_INTERVAL_def)
  from a b [of 4] r0 in_range_ex(2) 1 [unfolded full] us ut 4 5 [unfolded 6] show ?thesis
    by blast
qed

text \<open>
  C1 as stated fails: the identity of a channel has six fields, and the source compares
  one. A heartbeat with the channel id of the stored state but another channel name and
  another source key is not taken for a switch: nothing is settled, the user's list
  stays empty, and the stored state is kept with its count raised from 4 to 5.
\<close>

theorem heartbeat_same_id_counterexample:
  "watching ex_watching (watchKey ''alice'' (sessionId ex_body3)) = Some (ex_state 4) \<and>
   in_range (ex_state 4) \<and>
   channelName (ex_state 4) \<noteq> b_channelName ex_body3 \<and>
   sourceKey (ex_state 4) \<noteq> b_sourceKey ex_body3 \<and>
   record_heartbeat 100000 100001 ''alice'' ex_body3 ex_watching =
     ex_watching\<lparr>watching := [watchKey ''alice'' ''tab1'' \<mapsto>
        (ex_state 4)\<lparr>lastHeartbeat := 100000, heartbeatCount := 5\<rparr>]\<rparr> \<and>
   user_sessions (record_heartbeat 100000 100001 ''alice'' ex_body3 ex_watching) ''alice'' = [] \<and>
   watching (record_heartbeat 100000 100001 ''alice'' ex_body3 ex_watching)
       (watchKey ''alice'' ''tab1'') \<noteq> Some (newState ex_body3 100000)"
proof -
  have a: "watching ex_watching (watchKey ''alice'' (sessionId ex_body3)) = Some (ex_state 4)"
    by (simp add: ex_body3_simps ex_watching_simps)
  have c: "channelId (ex_state 4) = b_channelId ex_body3"
    by (simp add: ex_body3_simps ex_state_simps)
  have w: "watching ex_watching = [watchKey ''alice'' ''tab1'' \<mapsto> ex_state 4]"
    by (simp add: ex_watching_def empty_store_def)
  have e: "record_heartbeat 100000 100001 ''alice'' ex_body3 ex_watching =
     ex_watching\<lparr>watching := [watchKey ''alice'' ''tab1'' \<mapsto>
        (ex_state 4)\<lparr>lastHeartbeat := 100000, heartbeatCount := 5\<rparr>]\<rparr>"
    using record_heartbeat_same [OF a c, of 100000 100001]
    by (simp add: ex_body3_simps w ex_state_simps)
  have d: "channelName (ex_state 4) \<noteq> b_channelName ex_body3"
    "sourceKey (ex_state 4) \<noteq> b_sourceKey ex_body3"
    by (simp_all add: ex_body3_simps ex_state_def newState_def ex_body_def)
  have n: "(ex_state 4)\<lparr>lastHeartbeat := 100000, heartbeatCount := 5\<rparr> \<noteq> newState ex_body3 100000"
    by (simp add: ex_state_def newState_def ex_body3_def ex_body_def)
  from a d n show ?thesis
    unfolding e by (simp add: in_range_ex readers_watching_update ex_watching_simps)
qed

text \<open>
  C5. \<open>end_watch\<close> on a key that holds a watch state \<open>A\<close> settles \<open>A\<close> with \<open>endTime = now\<close>
  and deletes the key, storing no new state: the watch states are the former ones
  without this key. When the duration of \<open>A\<close> is within bounds, the user's list gains the
  session of \<open>A\<close> at its front, with end time \<open>now\<close>; the user's total, the total of the
  clock's day and the total of channel \<open>A\<close> grow by the duration, their session counts
  by one, the user's last watch time is \<open>now\<close>, and the user is among the users of that
  day and of that channel. When it is out of bounds, only the key is deleted. On a key
  that holds no state the store is returned unchanged. Hence a second \<open>end_watch\<close> on the
  same key changes nothing, and a well-formed request is answered with success.
\<close>

theorem end_watch_settles_or_noop:
  "(\<forall>A. watching st (watchKey u sid) = Some A \<longrightarrow>
      end_watch now clock u sid st =
        (settleWatchSession clock u A now st)\<lparr>watching := (watching st)(watchKey u sid := None)\<rparr> \<and>
      watching (end_watch now clock u sid st) = (watching st)(watchKey u sid := None) \<and>
      watching (end_watch now clock u sid st) (watchKey u sid) = None \<and>
      (in_range A \<longrightarrow>
         user_sessions (end_watch now clock u sid st) u =
           take 100 (session_record A now (heartbeatCount A * HEARTBEAT_INTERVAL) # user_sessions st u) \<and>
         s_endTime (session_record A now (heartbeatCount A * HEARTBEAT_INTERVAL)) = now \<and>
         s_duration (session_record A now (heartbeatCount A * HEARTBEAT_INTERVAL)) =
           heartbeatCount A * HEARTBEAT_INTERVAL \<and>
         user_total (end_watch now clock u sid st) u =
           user_total st u + heartbeatCount A * HEARTBEAT_INTERVAL \<and>
         user_count (end_watch now clock u sid st) u = user_count st u + 1 \<and>
         user_last (end_watch now clock u sid st) u = now \<and>
         daily_total (end_watch now clock u sid st) (dateKey clock) =
           daily_total st (dateKey clock) + heartbeatCount A * HEARTBEAT_INTERVAL \<and>
         daily_count (end_watch now clock u sid st) (dateKey clock) =
           daily_count st (dateKey clock) + 1 \<and>
         u \<in> set (daily_users (end_watch now clock u sid st) (dateKey clock)) \<and>
         channel_total (end_watch now clock u sid st) (channelId A) =
           channel_total st (channelId A) + heartbeatCount A * HEARTBEAT_INTERVAL \<and>
         channel_count (end_watch now clock u sid st) (channelId A) =
           channel_count st (channelId A) + 1 \<and>
         u \<in> set (channel_users (end_watch now clock u sid st) (channelId A))) \<and>
      (\<not> in_range A \<longrightarrow>
         end_watch now clock u sid st = st\<lparr>watching := (watching st)(watchKey u sid := None)\<rparr>)) \<and>
   (watching st (watchKey u sid) = None \<longrightarrow> end_watch now clock u sid st = st) \<and>
   end_watch now' clock' u sid (end_watch now clock u sid st) = end_watch now clock u sid st \<and>
   (storageType env \<noteq> ''localstorage'' \<and> authInfo env = Some u \<and> u \<noteq> [] \<and> sid \<noteq> [] \<longrightarrow>
      POST_heartbeat_end env now clock sid st = (Success, end_watch now clock u sid st))"
proof (intro conjI allI impI)
  fix A assume a: "watching st (watchKey u sid) = Some A"
  then show e: "end_watch now clock u sid st =
        (settleWatchSession clock u A now st)\<lparr>watching := (watching st)(watchKey u sid := None)\<rparr>"
    by (simp add: end_watch_def Let_def settle_watching)
  show "watching (end_watch now clock u sid st) = (watching st)(watchKey u sid := None)"
    by (simp add: e)
  show "watching (end_watch now clock u sid st) (watchKey u sid) = None"
    by (simp add: e)
  {
    assume r: "in_range A"
    show "user_sessions (end_watch now clock u sid st) u =
           take 100 (session_record A now (heartbeatCount A * HEARTBEAT_INTERVAL) # user_sessions st u)"
      unfolding e readers_watching_update by (simp add: settle_user_sessions [OF r])
    show "s_endTime (session_record A now (heartbeatCount A * HEARTBEAT_INTERVAL)) = now"
      by (simp add: session_record_def)
    show "s_duration (session_record A now (heartbeatCount A * HEARTBEAT_INTERVAL)) =
           heartbeatCount A * HEARTBEAT_INTERVAL"
      by (simp add: session_record_def)
    show "user_total (end_watch now clock u sid st) u =
           user_total st u + heartbeatCount A * HEARTBEAT_INTERVAL"
      unfolding e readers_watching_update by (simp add: settle_user_total [OF r])
    show "user_count (end_watch now clock u sid st) u = user_count st u + 1"
      unfolding e readers_watching_update by (simp add: settle_user_count [OF r])
    show "user_last (end_watch now clock u sid st) u = now"
      unfolding e readers_watching_update by (rule settle_user_last [OF r])
    show "daily_total (end_watch now clock u sid st) (dateKey clock) =
           daily_total st (dateKey clock) + heartbeatCount A * HEARTBEAT_INTERVAL"
      unfolding e readers_watching_update using settle_daily_record [OF r] by blast
    show "daily_count (end_watch now clock u sid st) (dateKey clock) =
           daily_count st (dateKey clock) + 1"
      unfolding e readers_watching_update using settle_daily_record [OF r] by blast
    show "u \<in> set (daily_users (end_watch now clock u sid st) (dateKey clock))"
      unfolding e readers_watching_update
      using settle_daily_record [OF r, of clock u now st] by (simp split: if_splits)
    show "channel_total (end_watch now clock u sid st) (channelId A) =
           channel_total st (channelId A) + heartbeatCount A * HEARTBEAT_INTERVAL"
      unfolding e readers_watching_update using settle_channel_record [OF r] by blast
    show "channel_count (end_watch now clock u sid st) (channelId A) =
           channel_count st (channelId A) + 1"
      unfolding e readers_watching_update using settle_channel_record [OF r] by blast
    show "u \<in> set (channel_users (end_watch now clock u sid st) (channelId A))"
      unfolding e readers_watching_update
      using settle_channel_record [OF r, of clock u now st] by (simp split: if_splits)
  }
  {
    assume "\<not> in_range A"
    then show "end_watch now clock u sid st =
        st\<lparr>watching := (watching st)(watchKey u sid := None)\<rparr>"
      by (simp add: e settle_out_of_range)
  }
next
  assume "watching st (watchKey u sid) = None"
  then show "end_watch now clock u sid st = st" by (simp add: end_watch_def)
next
  have "watching (end_watch now clock u sid st) (watchKey u sid) = None"
    by (cases "watching st (watchKey u sid)") (simp_all add: end_watch_def Let_def)
  then show "end_watch now' clock' u sid (end_watch now clock u sid st) = end_watch now clock u sid st"
    by (simp add: end_watch_def [of now' clock'])
next
  assume "storageType env \<noteq> ''localstorage'' \<and> authInfo env = Some u \<and> u \<noteq> [] \<and> sid \<noteq> []"
  then show "POST_heartbeat_end env now clock sid st = (Success, end_watch now clock u sid st)"
    by (simp add: POST_heartbeat_end_def)
qed

theorem end_watch_settles_or_noop_witness:
  "watching ex_watching (watchKey ''alice'' ''tab1'') = Some (ex_state 4) \<and> in_range (ex_state 4) \<and>
   end_watch 100000 100001 ''alice'' ''tab1'' ex_watching =
     \<lparr>watching = Map.empty,
      sessions = [''alice'' \<mapsto> [session_record (ex_state 4) 100000 120]],
      stats = [''alice'' \<mapsto> \<lparr>us_totalWatchTime = 120, us_totalSessions = 1, us_lastWatchTime = 100000\<rparr>],
      daily = [0 \<mapsto> \<lparr>d_watchTime = 120, d_sessions = 1, d_users = [''alice'']\<rparr>],
      channel = [''c1'' \<mapsto> \<lparr>c_channelId = ''c1'', c_channelName = ''News'', c_channelGroup = ''g1'',
         c_totalWatchTime = 120, c_totalSessions = 1, c_users = [''alice'']\<rparr>],
      globalStats = None\<rparr> \<and>
   user_sessions (end_watch 100000 100001 ''alice'' ''tab1'' ex_watching) ''alice'' =
     [session_record (ex_state 4) 100000 120] \<and>
   user_total (end_watch 100000 100001 ''alice'' ''tab1'' ex_watching) ''alice'' = 120 \<and>
   user_last (end_watch 100000 100001 ''alice'' ''tab1'' ex_watching) ''alice'' = 100000 \<and>
   watching (end_watch 100000 100001 ''alice'' ''tab1'' ex_watching) (watchKey ''alice'' ''tab1'') = None \<and>
   \<not> in_range (ex_state 0) \<and>
   end_watch 100000 100001 ''alice'' ''tab1''
       (empty_store\<lparr>watching := [watchKey ''alice'' ''tab1'' \<mapsto> ex_state 0]\<rparr>) = empty_store \<and>
   watching empty_store (watchKey ''alice'' ''tab1'') = None \<and>
   end_watch 100000 100001 ''alice'' ''tab1'' empty_store = empty_store \<and>
   end_watch 200000 200001 ''alice'' ''tab1'' (end_watch 100000 100001 ''alice'' ''tab1'' ex_watching) =
     end_watch 100000 100001 ''alice'' ''tab1'' ex_watching \<and>
   storageType ex_env \<noteq> ''localstorage'' \<and> authInfo ex_env = Some ''alice'' \<and>
   POST_heartbeat_end ex_env 100000 100001 ''tab1'' empty_store = (Success, empty_store)"
proof -
  let ?st0 = "empty_store\<lparr>watching := [watchKey ''alice'' ''tab1'' \<mapsto> ex_state 0]\<rparr>"
  have a: "watching ex_watching (watchKey ''alice'' ''tab1'') = Some (ex_state 4)"
    by (rule ex_watching_simps)
  have a0: "watching ?st0 (watchKey ''alice'' ''tab1'') = Some (ex_state 0)"
    by simp
  have n: "watching empty_store (watchKey ''alice'' ''tab1'') = None"
    by (simp add: empty_store_def)
  have r0: "\<not> in_range (ex_state 0)" by (simp add: in_range_iff ex_state_simps)
  have v: "storageType ex_env \<noteq> ''localstorage''" "authInfo ex_env = Some ''alice''"
    "''alice'' \<noteq> []" "''tab1'' \<noteq> []"
    by (simp_all add: storageType_def ex_env_def)
  have e: "user_sessions ex_watching ''alice'' = []" "user_total ex_watching ''alice'' = 0"
    by (simp_all add: ex_watching_def user_sessions_def user_total_def empty_store_def)
  have full: "(settleWatchSession 100001 ''alice'' (ex_state 4) 100000 ex_watching)
       \<lparr>watching := (watching ex_watching)(watchKey ''alice'' ''tab1'' := None)\<rparr> =
     \<lparr>watching = Map.empty,
      sessions = [''alice'' \<mapsto> [session_record (ex_state 4) 100000 120]],
      stats = [''alice'' \<mapsto> \<lparr>us_totalWatchTime = 120, us_totalSessions = 1, us_lastWatchTime = 100000\<rparr>],
      daily = [0 \<mapsto> \<lparr>d_watchTime = 120, d_sessions = 1, d_users = [''alice'']\<rparr>],
      channel = [''c1'' \<mapsto> \<lparr>c_channelId = ''c1'', c_channelName = ''News'', c_channelGroup = ''g1'',
         c_totalWatchTime = 120, c_totalSessions = 1, c_users = [''alice'']\<rparr>],
      globalStats = None\<rparr>"
    by (simp add: settleWatchSession_def Let_def ex_state_def newState_def ex_body_def
        HEARTBEAT_INTERVAL_def MIN_SESSION_DURATION_def MAX_SESSION_DURATION_def
        ex_watching_def empty_store_def dateKey_def session_record_def)
  have emp: "?st0\<lparr>watching := (watching ?st0)(watchKey ''alice'' ''tab1'' := None)\<rparr> = empty_store"
    by (simp add: empty_store_def)
  note t = end_watch_settles_or_noop [of ex_watching "''alice''" "''tab1''" 100000 100001 200000 200001 ex_env]
  from t a in_range_ex(2)
  have 1: "end_watch 100000 100001 ''alice'' ''tab1'' ex_watching =
       (settleWatchSession 100001 ''alice'' (ex_state 4) 100000 ex_watching)
         \<lparr>watching := (watching ex_watching)(watchKey ''alice'' ''tab1'' := None)\<rparr>"
    and 2: "user_sessions (end_watch 100000 100001 ''alice'' ''tab1'' ex_watching) ''alice'' =
       take 100 (session_record (ex_state 4) 100000 (heartbeatCount (ex_state 4) * HEARTBEAT_INTERVAL) #
         user_sessions ex_watching ''alice'')"
    and 3: "user_total (end_watch 100000 100001 ''alice'' ''tab1'' ex_watching) ''alice'' =
       user_total ex_watching ''alice'' + heartbeatCount (ex_state 4) * HEARTBEAT_INTERVAL"
    and 4: "user_last (end_watch 100000 100001 ''alice'' ''tab1'' ex_watching) ''alice'' = 100000"
    and 5: "watching (end_watch 100000 100001 ''alice'' ''tab1'' ex_watching)
       (watchKey ''alice'' ''tab1'') = None"
    by blast+
  from t have 6:
    "end_watch 200000 200001 ''alice'' ''tab1'' (end_watch 100000 100001 ''alice'' ''tab1'' ex_watching) =
     end_watch 100000 100001 ''alice'' ''tab1'' ex_watching"
    by blast
  note t0 = end_watch_settles_or_noop [of ?st0 "''alice''" "''tab1''" 100000 100001 200000 200001 ex_env]
  from t0 a0 r0 have 7: "end_watch 100000 100001 ''alice'' ''tab1'' ?st0 =
      ?st0\<lparr>watching := (watching ?st0)(watchKey ''alice'' ''tab1'' := None)\<rparr>"
    by blast
  note te = end_watch_settles_or_noop [of empty_store "''alice''" "''tab1''" 100000 100001 200000 200001 ex_env]
  from te n have 8: "end_watch 100000 100001 ''alice'' ''tab1'' empty_store = empty_store"
    by blast
  from te v have 9: "POST_heartbeat_end ex_env 100000 100001 ''tab1'' empty_store =
      (Success, end_watch 100000 100001 ''alice'' ''tab1'' empty_store)"
    by blast
  have us: "user_sessions (end_watch 100000 100001 ''alice'' ''tab1'' ex_watching) ''alice'' =
       [session_record (ex_state 4) 100000 120]"
    unfolding 2 by (simp add: e ex_state_simps HEARTBEAT_INTERVAL_def)
  have ut: "user_total (end_watch 100000 100001 ''alice'' ''tab1'' ex_watching) ''alice'' = 120"
    unfolding 3 by (simp add: e ex_state_simps HEARTBEAT_INTERVAL_def)
  from a in_range_ex(2) 1 [unfolded full] us ut 4 5 r0 7 [unfolded emp] n 8 6 v(1,2) 9 [unfolded 8]
  show ?thesis
    by blast
qed

subsection \<open>Runs of heartbeats\<close>





subsection \<open>Runs of settlements\<close>

lemma sum_list_map_nonneg:
  "list_all (\<lambda>x. 0 \<le> f x) xs \<Longrightarrow> 0 \<le> (sum_list (map f xs) :: int)"
  by (induction xs) simp_all

lemma sum_list_take_le:
  "list_all (\<lambda>x. 0 \<le> f x) xs \<Longrightarrow> sum_list (map f (take n xs)) \<le> (sum_list (map f xs) :: int)"
proof (induction xs arbitrary: n)
  case Nil
  then show ?case by simp
next
  case (Cons x xs)
  show ?case
  proof (cases n)
    case 0
    from Cons.prems have "0 \<le> sum_list (map f (x # xs))"
      by (rule sum_list_map_nonneg)
    with 0 show ?thesis by simp
  next
    case (Suc m)
    from Cons.prems have "list_all (\<lambda>x. 0 \<le> f x) xs" by simp
    from Cons.IH [OF this, of m] Suc show ?thesis by simp
  qed
qed

lemma settle_sum_inv:
  assumes "sum_inv st v"
  shows "sum_inv (settleWatchSession clock u state endTime st) v"
proof (cases "in_range state")
  case False
  with assms show ?thesis by (simp add: settle_out_of_range)
next
  case r: True
  show ?thesis
  proof (cases "v = u")
    case False
    with assms r show ?thesis
      by (simp add: sum_inv_def session_sum_def settle_user_sessions settle_user_total settle_user_count)
  next
    case True
    let ?d = "heartbeatCount state * HEARTBEAT_INTERVAL"
    let ?new = "session_record state endTime ?d"
    let ?old = "user_sessions st u"
    from r have d: "0 \<le> ?d" by (simp add: in_range_def MIN_SESSION_DURATION_def)
    have sd: "s_duration ?new = ?d" by (simp add: session_record_def)
    from assms True have nn: "list_all (\<lambda>s. 0 \<le> s_duration s) ?old"
      and le: "sum_list (map s_duration ?old) \<le> user_total st u"
      by (simp_all add: sum_inv_def session_sum_def)
    from nn d sd have nn': "list_all (\<lambda>s. 0 \<le> s_duration s) (?new # ?old)" by simp
    then have 1: "list_all (\<lambda>s. 0 \<le> s_duration s) (take 100 (?new # ?old))"
      by (auto simp: list_all_iff dest: in_set_takeD)
    have "sum_list (map s_duration (take 100 (?new # ?old))) \<le> sum_list (map s_duration (?new # ?old))"
      by (rule sum_list_take_le [OF nn'])
    with le sd have 2: "sum_list (map s_duration (take 100 (?new # ?old))) \<le> user_total st u + ?d"
      by simp
    have 3: "int (length (take 100 (?new # ?old))) = user_count st u + 1 \<and>
        sum_list (map s_duration (take 100 (?new # ?old))) = user_total st u + ?d"
      if c: "user_count st u + 1 \<le> 100"
    proof -
      from c assms True have l: "int (length ?old) = user_count st u"
        and e: "sum_list (map s_duration ?old) = user_total st u"
        by (simp_all add: sum_inv_def session_sum_def)
      from l c have "length ?old < 100" by simp
      then have "take 100 (?new # ?old) = ?new # ?old" by simp
      with l e sd show ?thesis by simp
    qed
    from 1 2 3 True r show ?thesis
      by (simp add: sum_inv_def session_sum_def settle_user_sessions settle_user_total settle_user_count)
  qed
qed

lemma settlements_sum_inv: "sum_inv st v \<Longrightarrow> sum_inv (settlements evs st) v"
proof (induction evs arbitrary: st)
  case Nil
  then show ?case by simp
next
  case (Cons ev evs)
  obtain clock u state endTime where "ev = (clock, u, state, endTime)" by (cases ev)
  with Cons show ?case by (simp add: settle_sum_inv)
qed

text \<open>
  C3, as the code has it. Starting from a store without sessions and statistics for the
  user, after any sequence of settlements the durations in the user's stored list sum
  to at most \<open>totalWatchTime\<close>, and to exactly \<open>totalWatchTime\<close> as long as
  \<open>totalSessions \<le> 100\<close>, that is, until the list of 100 entries has dropped a session.
\<close>

theorem session_sum_le_total:
  "sessions st u = None \<Longrightarrow> stats st u = None \<Longrightarrow>
     session_sum (settlements evs st) u \<le> user_total (settlements evs st) u \<and>
     (user_count (settlements evs st) u \<le> 100 \<longrightarrow>
        session_sum (settlements evs st) u = user_total (settlements evs st) u)"
proof -
  assume "sessions st u = None" "stats st u = None"
  then have "sum_inv st u"
    by (simp add: sum_inv_def session_sum_def user_sessions_def user_total_def user_count_def)
  then have "sum_inv (settlements evs st) u" by (rule settlements_sum_inv)
  then show ?thesis by (simp add: sum_inv_def)
qed

theorem session_sum_le_total_witness:
  "sessions empty_store ''alice'' = None \<and> stats empty_store ''alice'' = None \<and>
   user_count (settlements ex_settles empty_store) ''alice'' = 2 \<and>
   session_sum (settlements ex_settles empty_store) ''alice'' = 150 \<and>
   user_total (settlements ex_settles empty_store) ''alice'' = 150"
proof -
  have a: "sessions empty_store ''alice'' = None" "stats empty_store ''alice'' = None"
    by (simp_all add: empty_store_def)
  have e: "user_count empty_store u = 0" "user_total empty_store u = 0" for u
    by (simp_all add: user_count_def user_total_def empty_store_def)
  have r: "in_range (ex_state 2)" "\<not> in_range (ex_state 0)"
    by (simp_all add: in_range_iff ex_state_simps)
  have c: "user_count (settlements ex_settles empty_store) ''alice'' = 2"
    by (simp add: ex_settles_def settle_user_count in_range_ex r settle_out_of_range e)
  have t: "user_total (settlements ex_settles empty_store) ''alice'' = 150"
    by (simp add: ex_settles_def settle_user_total in_range_ex r settle_out_of_range e
        ex_state_simps HEARTBEAT_INTERVAL_def)
  from session_sum_le_total [OF a, of ex_settles] a c t show ?thesis by simp
qed

lemma settlements_snoc:
  "settlements (evs @ [(clock, u, state, endTime)]) st =
     settleWatchSession clock u state endTime (settlements evs st)"
proof (induction evs arbitrary: st)
  case Nil
  show ?case by simp
next
  case (Cons ev evs)
  obtain c v s e where "ev = (c, v, s, e)" by (cases ev)
  with Cons show ?case by simp
qed

lemma settlements_replicate:
  "user_sessions (settlements (replicate n ex_settle) empty_store) ''alice'' =
     replicate (min n 100) (session_record (ex_state 1) 0 30) \<and>
   user_total (settlements (replicate n ex_settle) empty_store) ''alice'' = 30 * int n"
proof (induction n)
  case 0
  show ?case by (simp add: user_sessions_def user_total_def empty_store_def)
next
  case (Suc n)
  have r: "replicate (Suc n) ex_settle = replicate n ex_settle @ [(0, ''alice'', ex_state 1, 0)]"
    by (simp add: replicate_append_same ex_settle_def)
  have t: "take 100 (session_record (ex_state 1) 0 30 # replicate (min n 100) (session_record (ex_state 1) 0 30)) =
      replicate (min (Suc n) 100) (session_record (ex_state 1) 0 30)"
  proof -
    have "session_record (ex_state 1) 0 30 # replicate (min n 100) (session_record (ex_state 1) 0 30) =
        replicate (Suc (min n 100)) (session_record (ex_state 1) 0 30)"
      by simp
    moreover have "min 100 (Suc (min n 100)) = min (Suc n) 100" by simp
    ultimately show ?thesis by (simp only: take_replicate)
  qed
  from Suc t show ?case
    unfolding r settlements_snoc
    by (simp add: settle_user_sessions settle_user_total in_range_ex ex_state_simps
        HEARTBEAT_INTERVAL_def del: replicate.simps take_Suc_Cons)
qed

text \<open>
  C3 as stated fails after 101 settlements of one heartbeat each for one user, starting
  from the empty store: the list keeps 100 sessions of 30 seconds, the total is 3030.
\<close>

theorem session_sum_counterexample:
  "session_sum (settlements (replicate 101 ex_settle) empty_store) ''alice'' = 3000 \<and>
   user_total (settlements (replicate 101 ex_settle) empty_store) ''alice'' = 3030 \<and>
   session_sum (settlements (replicate 101 ex_settle) empty_store) ''alice'' \<noteq>
   user_total (settlements (replicate 101 ex_settle) empty_store) ''alice''"
  using settlements_replicate [of 101]
  by (simp add: session_sum_def sum_list_replicate session_record_def del: replicate.simps)

subsection \<open>The maps of the report\<close>

lemma first_occ_snoc:
  "first_occ (xs @ [x]) = (if x \<in> set xs then first_occ xs else first_occ xs @ [x])"
  by (simp add: first_occ_def)

lemma first_occ_Nil: "first_occ [] = []"
  by (simp add: first_occ_def)

lemma set_first_occ: "set (first_occ xs) = set xs"
  by (simp add: first_occ_def)

lemma distinct_first_occ: "distinct (first_occ xs)"
  by (simp add: first_occ_def)

lemma length_first_occ: "length (first_occ xs) = length (remdups xs)"
proof -
  have "length (first_occ xs) = card (set xs)"
    using distinct_card [OF distinct_first_occ, of xs] by (simp add: set_first_occ)
  then show ?thesis by (simp add: length_remdups_card_conv)
qed

lemma map_of_keyed:
  "map_of (map (\<lambda>k. (k, g k)) ks) k = (if k \<in> set ks then Some (g k) else None)"
  by (induction ks) auto

lemma map_set_new:
  "k \<notin> set ks \<Longrightarrow> map_set k v (map (\<lambda>k. (k, g k)) ks) = map (\<lambda>k. (k, g k)) ks @ [(k, v)]"
  by (induction ks) auto

lemma map_set_old:
  "distinct ks \<Longrightarrow> k \<in> set ks \<Longrightarrow>
     map_set k v (map (\<lambda>k. (k, g k)) ks) = map (\<lambda>k'. (k', if k' = k then v else g k')) ks"
proof (induction ks)
  case Nil
  then show ?case by simp
next
  case (Cons a ks)
  show ?case
  proof (cases "a = k")
    case True
    with Cons.prems have "k \<notin> set ks" by simp
    then have "map (\<lambda>k'. (k', if k' = k then v else g k')) ks = map (\<lambda>k. (k, g k)) ks"
      by (intro map_cong) auto
    with True show ?thesis by simp
  next
    case False
    with Cons show ?thesis by simp
  qed
qed

lemma session_loop_foldl:
  "session_loop u ss (wm, gm) =
     (foldl (\<lambda>m s. watch_step s m) wm ss, foldl (\<lambda>m s. global_step u s m) gm ss)"
  by (induction ss arbitrary: wm gm) simp_all

lemma session_loop_pairs:
  "snd (session_loop u ss (wm, gm)) =
     foldl (\<lambda>m p. global_step (fst p) (snd p) m) gm (map (Pair u) ss)"
  by (induction ss arbitrary: wm gm) simp_all

lemma channel_total_of_snoc_other:
  "s_channelId s \<noteq> cid \<Longrightarrow> channel_total_of (ss @ [s]) cid = channel_total_of ss cid"
  by (simp add: channel_total_of_def)

lemma channel_total_of_snoc_new:
  "s_channelId s \<notin> s_channelId ` set ss \<Longrightarrow>
     channel_total_of (ss @ [s]) (s_channelId s) =
       \<lparr>f_channelId = s_channelId s, f_channelName = s_channelName s,
        f_channelGroup = s_channelGroup s, f_watchTime = s_duration s, f_watchCount = 1\<rparr>"
proof -
  assume "s_channelId s \<notin> s_channelId ` set ss"
  then have "filter (\<lambda>x. s_channelId x = s_channelId s) ss = []"
    by (induction ss) auto
  then show ?thesis by (simp add: channel_total_of_def)
qed

lemma channel_total_of_snoc_old:
  "s_channelId s \<in> s_channelId ` set ss \<Longrightarrow>
     channel_total_of (ss @ [s]) (s_channelId s) =
       (channel_total_of ss (s_channelId s))
         \<lparr>f_watchTime := f_watchTime (channel_total_of ss (s_channelId s)) + s_duration s,
          f_watchCount := f_watchCount (channel_total_of ss (s_channelId s)) + 1\<rparr>"
proof -
  assume "s_channelId s \<in> s_channelId ` set ss"
  then have "filter (\<lambda>x. s_channelId x = s_channelId s) ss \<noteq> []"
    by (induction ss) auto
  then obtain y ys where "filter (\<lambda>x. s_channelId x = s_channelId s) ss = y # ys"
    by (cases "filter (\<lambda>x. s_channelId x = s_channelId s) ss") auto
  then show ?thesis by (simp add: channel_total_of_def)
qed

lemma watch_step_keyed:
  "watch_step s (map (\<lambda>cid. (cid, g cid)) ids) =
     (if s_channelId s \<in> set ids
      then map_set (s_channelId s)
             ((g (s_channelId s))\<lparr>f_watchTime := f_watchTime (g (s_channelId s)) + s_duration s,
                f_watchCount := f_watchCount (g (s_channelId s)) + 1\<rparr>)
             (map (\<lambda>cid. (cid, g cid)) ids)
      else map_set (s_channelId s)
             \<lparr>f_channelId = s_channelId s, f_channelName = s_channelName s,
              f_channelGroup = s_channelGroup s, f_watchTime = s_duration s, f_watchCount = 1\<rparr>
             (map (\<lambda>cid. (cid, g cid)) ids))"
  by (simp add: watch_step_def map_of_keyed)

lemma watch_map_totals:
  "foldl (\<lambda>m s. watch_step s m) [] ss =
     map (\<lambda>cid. (cid, channel_total_of ss cid)) (first_occ (map s_channelId ss))"
proof (induction ss rule: rev_induct)
  case Nil
  show ?case by (simp add: first_occ_Nil)
next
  case (snoc s ss)
  let ?ids = "first_occ (map s_channelId ss)"
  let ?k = "s_channelId s"
  have ids: "set ?ids = s_channelId ` set ss" by (simp add: set_first_occ)
  have step: "foldl (\<lambda>m s. watch_step s m) [] (ss @ [s]) =
      watch_step s (map (\<lambda>cid. (cid, channel_total_of ss cid)) ?ids)"
    by (simp add: snoc.IH)
  show ?case
  proof (cases "?k \<in> s_channelId ` set ss")
    case True
    have "watch_step s (map (\<lambda>cid. (cid, channel_total_of ss cid)) ?ids) =
        map_set ?k (channel_total_of (ss @ [s]) ?k) (map (\<lambda>cid. (cid, channel_total_of ss cid)) ?ids)"
      using True by (simp add: watch_step_keyed ids channel_total_of_snoc_old)
    also have "\<dots> =
        map (\<lambda>k'. (k', if k' = ?k then channel_total_of (ss @ [s]) ?k else channel_total_of ss k')) ?ids"
      by (rule map_set_old) (simp_all add: distinct_first_occ ids True)
    also have "\<dots> = map (\<lambda>cid. (cid, channel_total_of (ss @ [s]) cid)) ?ids"
      by (intro map_cong) (auto simp: channel_total_of_snoc_other)
    finally have fin: "watch_step s (map (\<lambda>cid. (cid, channel_total_of ss cid)) ?ids) =
        map (\<lambda>cid. (cid, channel_total_of (ss @ [s]) cid)) ?ids" .
    show ?thesis
      unfolding step by (simp add: fin first_occ_snoc True)
  next
    case False
    have a: "watch_step s (map (\<lambda>cid. (cid, channel_total_of ss cid)) ?ids) =
        map (\<lambda>cid. (cid, channel_total_of ss cid)) ?ids @ [(?k, channel_total_of (ss @ [s]) ?k)]"
      using False by (simp add: watch_step_keyed ids channel_total_of_snoc_new map_set_new)
    have b: "map (\<lambda>cid. (cid, channel_total_of ss cid)) ?ids =
        map (\<lambda>cid. (cid, channel_total_of (ss @ [s]) cid)) ?ids"
    proof (intro map_cong refl)
      fix cid assume "cid \<in> set ?ids"
      with False ids have "s_channelId s \<noteq> cid" by blast
      then show "(cid, channel_total_of ss cid) = (cid, channel_total_of (ss @ [s]) cid)"
        by (simp add: channel_total_of_snoc_other)
    qed
    show ?thesis
      unfolding step a by (simp add: b first_occ_snoc False)
  qed
qed

lemma favorites_of_sessions:
  "take 5 (sort_desc f_watchTime (map snd (fst (session_loop u ss ([], gm))))) = top_favorites ss"
  by (simp add: session_loop_foldl watch_map_totals top_favorites_def channel_totals_def comp_def)

lemma global_total_of_snoc_other:
  "s_channelId (snd p) \<noteq> cid \<Longrightarrow> global_total_of (ps @ [p]) cid = global_total_of ps cid"
  by (simp add: global_total_of_def)

lemma global_total_of_snoc_new:
  "s_channelId s \<notin> (\<lambda>p. s_channelId (snd p)) ` set ps \<Longrightarrow>
     global_total_of (ps @ [(u, s)]) (s_channelId s) =
       \<lparr>g_channelId = s_channelId s, g_channelName = s_channelName s,
        g_channelGroup = s_channelGroup s, g_totalWatchTime = s_duration s,
        g_totalSessions = 1, g_users = [u]\<rparr>"
proof -
  assume "s_channelId s \<notin> (\<lambda>p. s_channelId (snd p)) ` set ps"
  then have "filter (\<lambda>p. s_channelId (snd p) = s_channelId s) ps = []"
    by (induction ps) auto
  then show ?thesis by (simp add: global_total_of_def first_occ_def)
qed

lemma global_total_of_snoc_old:
  "s_channelId s \<in> (\<lambda>p. s_channelId (snd p)) ` set ps \<Longrightarrow>
     global_total_of (ps @ [(u, s)]) (s_channelId s) =
       (global_total_of ps (s_channelId s))
         \<lparr>g_totalWatchTime := g_totalWatchTime (global_total_of ps (s_channelId s)) + s_duration s,
          g_totalSessions := g_totalSessions (global_total_of ps (s_channelId s)) + 1,
          g_users := (if u \<in> set (g_users (global_total_of ps (s_channelId s)))
                      then g_users (global_total_of ps (s_channelId s))
                      else g_users (global_total_of ps (s_channelId s)) @ [u])\<rparr>"
proof -
  assume "s_channelId s \<in> (\<lambda>p. s_channelId (snd p)) ` set ps"
  then have "filter (\<lambda>p. s_channelId (snd p) = s_channelId s) ps \<noteq> []"
    by (induction ps) auto
  then obtain y ys where "filter (\<lambda>p. s_channelId (snd p) = s_channelId s) ps = y # ys"
    by (cases "filter (\<lambda>p. s_channelId (snd p) = s_channelId s) ps") auto
  then show ?thesis
    using first_occ_snoc [of "fst y # map fst ys" u]
    by (simp add: global_total_of_def set_first_occ)
qed

lemma global_step_keyed:
  "global_step u s (map (\<lambda>cid. (cid, g cid)) ids) =
     (if s_channelId s \<in> set ids
      then map_set (s_channelId s)
             ((g (s_channelId s))\<lparr>
                g_totalWatchTime := g_totalWatchTime (g (s_channelId s)) + s_duration s,
                g_totalSessions := g_totalSessions (g (s_channelId s)) + 1,
                g_users := (if u \<in> set (g_users (g (s_channelId s))) then g_users (g (s_channelId s))
                            else g_users (g (s_channelId s)) @ [u])\<rparr>)
             (map (\<lambda>cid. (cid, g cid)) ids)
      else map_set (s_channelId s)
             \<lparr>g_channelId = s_channelId s, g_channelName = s_channelName s,
              g_channelGroup = s_channelGroup s, g_totalWatchTime = s_duration s,
              g_totalSessions = 1, g_users = [u]\<rparr>
             (map (\<lambda>cid. (cid, g cid)) ids))"
  by (simp add: global_step_def map_of_keyed)

lemma global_map_totals:
  "foldl (\<lambda>m p. global_step (fst p) (snd p) m) [] ps =
     map (\<lambda>cid. (cid, global_total_of ps cid)) (first_occ (map (\<lambda>p. s_channelId (snd p)) ps))"
proof (induction ps rule: rev_induct)
  case Nil
  show ?case by (simp add: first_occ_Nil)
next
  case (snoc p ps)
  obtain u s where p: "p = (u, s)" by (cases p)
  let ?ids = "first_occ (map (\<lambda>p. s_channelId (snd p)) ps)"
  let ?k = "s_channelId s"
  have ids: "set ?ids = (\<lambda>p. s_channelId (snd p)) ` set ps" by (simp add: set_first_occ)
  have step: "foldl (\<lambda>m p. global_step (fst p) (snd p) m) [] (ps @ [p]) =
      global_step u s (map (\<lambda>cid. (cid, global_total_of ps cid)) ?ids)"
    by (simp add: snoc.IH p)
  show ?case
  proof (cases "?k \<in> (\<lambda>p. s_channelId (snd p)) ` set ps")
    case True
    have a: "global_step u s (map (\<lambda>cid. (cid, global_total_of ps cid)) ?ids) =
        map_set ?k (global_total_of (ps @ [p]) ?k) (map (\<lambda>cid. (cid, global_total_of ps cid)) ?ids)"
      using True unfolding p global_total_of_snoc_old [OF True]
      by (simp add: global_step_keyed ids)
    have b: "map_set ?k (global_total_of (ps @ [p]) ?k) (map (\<lambda>cid. (cid, global_total_of ps cid)) ?ids) =
        map (\<lambda>k'. (k', if k' = ?k then global_total_of (ps @ [p]) ?k else global_total_of ps k')) ?ids"
      by (rule map_set_old) (simp_all add: distinct_first_occ ids True)
    have c: "map (\<lambda>k'. (k', if k' = ?k then global_total_of (ps @ [p]) ?k else global_total_of ps k')) ?ids =
        map (\<lambda>cid. (cid, global_total_of (ps @ [p]) cid)) ?ids"
      by (intro map_cong) (auto simp: global_total_of_snoc_other p)
    show ?thesis
      unfolding step a b c by (simp add: first_occ_snoc True p)
  next
    case False
    have a: "global_step u s (map (\<lambda>cid. (cid, global_total_of ps cid)) ?ids) =
        map (\<lambda>cid. (cid, global_total_of ps cid)) ?ids @ [(?k, global_total_of (ps @ [p]) ?k)]"
      using False unfolding p global_total_of_snoc_new [OF False]
      by (simp add: global_step_keyed ids map_set_new)
    have b: "map (\<lambda>cid. (cid, global_total_of ps cid)) ?ids =
        map (\<lambda>cid. (cid, global_total_of (ps @ [p]) cid)) ?ids"
    proof (intro map_cong refl)
      fix cid assume "cid \<in> set ?ids"
      with False ids have "s_channelId (snd p) \<noteq> cid" unfolding p by auto
      then show "(cid, global_total_of ps cid) = (cid, global_total_of (ps @ [p]) cid)"
        by (simp add: global_total_of_snoc_other)
    qed
    show ?thesis
      unfolding step a by (simp add: b first_occ_snoc False p)
  qed
qed

lemma hot_channel_total: "hot_channel (global_total_of ps cid) = hot_total_of ps cid"
  by (simp add: hot_channel_def global_total_of_def hot_total_of_def Let_def length_first_occ)

subsection \<open>The report\<close>

lemma user_step_char:
  "user_step st user sc =
     (if active st (username user)
      then \<lparr>sc_userStats = sc_userStats sc @ [user_entry st (username user)],
            sc_totalWatchTime = sc_totalWatchTime sc + user_total st (username user),
            sc_totalSessions = sc_totalSessions sc + user_count st (username user),
            sc_channelStatsMap = foldl (\<lambda>m p. global_step (fst p) (snd p) m) (sc_channelStatsMap sc)
               (map (Pair (username user)) (user_sessions st (username user)))\<rparr>
      else sc)"
proof -
  obtain wm gm where sl: "session_loop (username user) (user_sessions st (username user))
      ([], sc_channelStatsMap sc) = (wm, gm)"
    by (cases "session_loop (username user) (user_sessions st (username user)) ([], sc_channelStatsMap sc)")
  have f: "take 5 (sort_desc f_watchTime (map snd wm)) = top_favorites (user_sessions st (username user))"
    using favorites_of_sessions [of "username user" "user_sessions st (username user)" "sc_channelStatsMap sc"] sl
    by simp
  have g: "gm = foldl (\<lambda>m p. global_step (fst p) (snd p) m) (sc_channelStatsMap sc)
               (map (Pair (username user)) (user_sessions st (username user)))"
    using session_loop_pairs [of "username user" "user_sessions st (username user)" "[]" "sc_channelStatsMap sc"] sl
    by simp
  show ?thesis
    unfolding user_step_def Let_def user_sessions_def [symmetric]
    by (simp add: sl f g [symmetric] active_def user_entry_def user_total_def user_count_def user_last_def)
qed

lemma inactive_zero: "\<not> active st u \<Longrightarrow> user_total st u = 0 \<and> user_count st u = 0 \<and> user_sessions st u = []"
  by (simp add: active_def user_total_def user_count_def)

lemma user_loop_char:
  "user_loop st allUsers sc =
     \<lparr>sc_userStats = sc_userStats sc @ map (user_entry st) (filter (active st) (map username allUsers)),
      sc_totalWatchTime = sc_totalWatchTime sc + sum_list (map (\<lambda>user. user_total st (username user)) allUsers),
      sc_totalSessions = sc_totalSessions sc + sum_list (map (\<lambda>user. user_count st (username user)) allUsers),
      sc_channelStatsMap = foldl (\<lambda>m p. global_step (fst p) (snd p) m) (sc_channelStatsMap sc)
         (scanned st allUsers)\<rparr>"
proof (induction allUsers arbitrary: sc)
  case Nil
  show ?case by (simp add: scanned_def)
next
  case (Cons user rest)
  show ?case
  proof (cases "active st (username user)")
    case True
    then show ?thesis
      by (simp add: Cons.IH user_step_char scanned_def add.assoc)
  next
    case False
    with inactive_zero [OF False] show ?thesis
      by (simp add: Cons.IH user_step_char scanned_def)
  qed
qed

lemma build_report_char:
  "build_report allUsers now st =
     \<lparr>totalUsers = int (length (filter (active st) (map username allUsers))),
      totalWatchTime = sum_list (map (\<lambda>user. user_total st (username user)) allUsers),
      totalSessions = sum_list (map (\<lambda>user. user_count st (username user)) allUsers),
      todayActiveUsers = (case daily st (dateKey now) of None \<Rightarrow> 0 | Some d \<Rightarrow> int (length (d_users d))),
      hotChannels = top_hot (scanned st allUsers),
      dailyTrend = trend_loop st now 6 [],
      userStats = sort_desc u_totalWatchTime
        (map (user_entry st) (filter (active st) (map username allUsers)))\<rparr>"
  by (simp add: build_report_def Let_def user_loop_char global_map_totals top_hot_def hot_totals_def
      comp_def hot_channel_total sort_desc_def)

lemma dateKey_days_back:
  "dateKey (now - 86400000 * i) = dateKey now - i"
  "dateKey (now - i * 24 * 60 * 60 * 1000) = dateKey now - i"
proof -
  have "(now + 86400000 * (- i)) div 86400000 = - i + now div 86400000"
    by (rule div_mult_self2) simp
  then show "dateKey (now - 86400000 * i) = dateKey now - i"
    by (simp add: dateKey_def)
  then show "dateKey (now - i * 24 * 60 * 60 * 1000) = dateKey now - i"
    by (simp add: mult.commute)
qed

lemma trend_loop_eq:
  "- 1 \<le> i \<Longrightarrow>
     trend_loop st now i acc = acc @ map (\<lambda>j. trend_entry st (dateKey now - j)) (rev [0..i])"
proof (induction st now i acc rule: trend_loop.induct)
  case (1 st now i acc)
  show ?case
  proof (cases "0 \<le> i")
    case True
    have r: "rev [0..i] = i # rev [0..i - 1]"
      using True by (simp add: upto_rec2)
    have "trend_loop st now i acc =
        trend_loop st now (i - 1) (acc @ [trend_entry st (dateKey now - i)])"
      using True
      by (subst trend_loop.simps) (simp add: Let_def trend_entry_def dateKey_days_back del: trend_loop.simps)
    also have "\<dots> = (acc @ [trend_entry st (dateKey now - i)]) @
        map (\<lambda>j. trend_entry st (dateKey now - j)) (rev [0..i - 1])"
      using True "1.IH" [OF True refl refl]
      by (simp add: trend_entry_def dateKey_days_back del: trend_loop.simps)
    finally show ?thesis by (simp add: r del: trend_loop.simps)
  next
    case False
    with "1.prems" have "i = - 1" by simp
    then show ?thesis by (subst trend_loop.simps) simp
  qed
qed

lemma sort_desc_sorted: "sorted_wrt (\<lambda>a b. f b \<le> f a) (sort_desc f xs)"
proof -
  have "sorted (map (\<lambda>x. - f x) (sort_key (\<lambda>x. - f x) xs))" by (rule sorted_sort_key)
  then show ?thesis by (simp add: sort_desc_def sorted_map)
qed

lemma sort_desc_stable: "filter (\<lambda>x. f x = k) (sort_desc f xs) = filter (\<lambda>x. f x = k) xs"
  using sort_key_stable [of "\<lambda>x. - f x" "- k" xs] by (simp add: sort_desc_def)

lemma set_sort_desc: "set (sort_desc f xs) = set xs"
  by (simp add: sort_desc_def)

lemma ex_sessions:
  "user_sessions ex_report_store ''alice'' =
     [ex_session ''c1'' ''News'' 2, ex_session ''c2'' ''Sports'' 4,
      ex_session ''c1'' ''News'' 2, ex_session ''c3'' ''Films'' 4]"
  "user_sessions ex_report_store ''bob'' = [ex_session ''c2'' ''Sports'' 1]"
  "user_sessions ex_report_store ''carol'' = []"
  "stats ex_report_store ''bob'' = None"
  "stats ex_report_store ''carol'' = None"
  by (simp_all add: user_sessions_def ex_report_store_def empty_store_def)

text \<open>
  C8. Every entry of the report's user list carries as favorite channels the first 5 of
  the per-channel totals of that user's session list (durations summed and sessions
  counted per channel id), sorted into descending order of watch time by a stable sort,
  so that channels with equal watch time stay in the order in which they first occur in
  the session list; every user that is not skipped has such an entry. The hot channels
  are the first 10 of the per-channel totals over all scanned sessions, sorted the same
  way. The last four conjuncts say what the sort does: the result is in descending
  order, and the entries of any one watch time keep their order.
\<close>

theorem report_rankings:
  "(\<forall>e \<in> set (userStats (build_report allUsers now st)).
      favoriteChannels e =
        take 5 (sort_desc f_watchTime (channel_totals (user_sessions st (u_username e))))) \<and>
   (\<forall>user \<in> set allUsers. active st (username user) \<longrightarrow>
      user_entry st (username user) \<in> set (userStats (build_report allUsers now st))) \<and>
   hotChannels (build_report allUsers now st) =
     take 10 (sort_desc h_totalWatchTime (hot_totals (scanned st allUsers))) \<and>
   sorted_wrt (\<lambda>a b. f_watchTime b \<le> f_watchTime a) (sort_desc f_watchTime (channel_totals ss)) \<and>
   (\<forall>k. filter (\<lambda>c. f_watchTime c = k) (sort_desc f_watchTime (channel_totals ss)) =
        filter (\<lambda>c. f_watchTime c = k) (channel_totals ss)) \<and>
   sorted_wrt (\<lambda>a b. h_totalWatchTime b \<le> h_totalWatchTime a) (sort_desc h_totalWatchTime (hot_totals ps)) \<and>
   (\<forall>k. filter (\<lambda>c. h_totalWatchTime c = k) (sort_desc h_totalWatchTime (hot_totals ps)) =
        filter (\<lambda>c. h_totalWatchTime c = k) (hot_totals ps))"
proof -
  have us: "set (userStats (build_report allUsers now st)) =
      user_entry st ` {u \<in> username ` set allUsers. active st u}"
    by (simp add: build_report_char set_sort_desc del: trend_loop.simps)
  have 1: "\<forall>e \<in> set (userStats (build_report allUsers now st)).
      favoriteChannels e =
        take 5 (sort_desc f_watchTime (channel_totals (user_sessions st (u_username e))))"
    unfolding us by (auto simp: user_entry_def top_favorites_def)
  have 2: "\<forall>user \<in> set allUsers. active st (username user) \<longrightarrow>
      user_entry st (username user) \<in> set (userStats (build_report allUsers now st))"
    unfolding us by auto
  have 3: "hotChannels (build_report allUsers now st) =
     take 10 (sort_desc h_totalWatchTime (hot_totals (scanned st allUsers)))"
    by (simp add: build_report_char top_hot_def del: trend_loop.simps)
  from 1 2 3 show ?thesis
    by (simp add: sort_desc_sorted sort_desc_stable)
qed

theorem report_rankings_witness:
  "active ex_report_store ''alice'' \<and>
   user_entry ex_report_store ''alice'' \<in>
     set (userStats (build_report ex_users 86400000 ex_report_store)) \<and>
   favoriteChannels (user_entry ex_report_store ''alice'') = ex_fav \<and>
   hotChannels (build_report ex_users 86400000 ex_report_store) = ex_hot"
proof -
  note t = report_rankings [of ex_users 86400000 ex_report_store "[]" "[]"]
  have m: "\<lparr>username = ''alice'', role = ''admin'', banned = False\<rparr> \<in> set ex_users"
    by (simp add: ex_users_def)
  have a: "active ex_report_store ''alice''"
    by (simp add: active_def ex_sessions)
  from t m a have e: "user_entry ex_report_store ''alice'' \<in>
     set (userStats (build_report ex_users 86400000 ex_report_store))"
    by fastforce
  have n: "u_username (user_entry ex_report_store ''alice'') = ''alice''"
    by (simp add: user_entry_def)
  from t e have "favoriteChannels (user_entry ex_report_store ''alice'') =
      take 5 (sort_desc f_watchTime (channel_totals (user_sessions ex_report_store
        (u_username (user_entry ex_report_store ''alice'')))))"
    by blast
  then have f: "favoriteChannels (user_entry ex_report_store ''alice'') = ex_fav"
    unfolding n
    by (simp add: ex_sessions channel_totals_def channel_total_of_def first_occ_def sort_desc_def
      ex_session_def ex_fav_def)
  from t have "hotChannels (build_report ex_users 86400000 ex_report_store) =
      take 10 (sort_desc h_totalWatchTime (hot_totals (scanned ex_report_store ex_users)))"
    by blast
  then have h: "hotChannels (build_report ex_users 86400000 ex_report_store) = ex_hot"
    by (simp add: scanned_def ex_users_def ex_sessions hot_totals_def hot_total_of_def first_occ_def
      sort_desc_def ex_session_def ex_hot_def)
  from a e f h show ?thesis by blast
qed

text \<open>
  C9. The daily trend of a report has exactly 7 entries, for the UTC days
  \<open>today - 6, \<dots>, today\<close> in this order, where \<open>today\<close> is the day of \<open>now\<close>; the entry of a
  day without a daily record has watch time, sessions and users 0.
\<close>

theorem daily_trend_seven_days:
  "dailyTrend (build_report allUsers now st) =
     map (\<lambda>i. trend_entry st (dateKey now - i)) [6, 5, 4, 3, 2, 1, 0] \<and>
   length (dailyTrend (build_report allUsers now st)) = 7 \<and>
   map t_date (dailyTrend (build_report allUsers now st)) =
     [dateKey now - 6, dateKey now - 5, dateKey now - 4, dateKey now - 3, dateKey now - 2,
      dateKey now - 1, dateKey now] \<and>
   (\<forall>e \<in> set (dailyTrend (build_report allUsers now st)).
      daily st (t_date e) = None \<longrightarrow> t_watchTime e = 0 \<and> t_sessions e = 0 \<and> t_users e = 0)"
proof -
  have u: "rev [0..6] = [6, 5, 4, 3, 2, 1, 0::int]"
    by code_simp
  have eq: "dailyTrend (build_report allUsers now st) =
     map (\<lambda>i. trend_entry st (dateKey now - i)) [6, 5, 4, 3, 2, 1, 0]"
    using trend_loop_eq [of 6 st now "[]"] by (simp add: build_report_char u del: trend_loop.simps)
  have z: "daily st d = None \<longrightarrow> t_watchTime (trend_entry st d) = 0 \<and>
      t_sessions (trend_entry st d) = 0 \<and> t_users (trend_entry st d) = 0" for d
    by (simp add: trend_entry_def)
  have d: "t_date (trend_entry st d) = d" for d by (simp add: trend_entry_def)
  show ?thesis
    unfolding eq using z by (simp add: d)
qed

theorem daily_trend_seven_days_witness:
  "daily ex_report_store 0 = None \<and>
   dailyTrend (build_report ex_users 86400000 ex_report_store) = ex_trend"
proof -
  have d: "daily ex_report_store = [1 \<mapsto> \<lparr>d_watchTime = 390, d_sessions = 5, d_users = [''alice'', ''bob'']\<rparr>]"
    by (simp add: ex_report_store_def empty_store_def)
  have k: "dateKey 86400000 = 1" by (simp add: dateKey_def)
  from daily_trend_seven_days [of ex_users 86400000 ex_report_store]
  have "dailyTrend (build_report ex_users 86400000 ex_report_store) =
     map (\<lambda>i. trend_entry ex_report_store (dateKey 86400000 - i)) [6, 5, 4, 3, 2, 1, 0]"
    by blast
  then show ?thesis
    by (simp add: k d trend_entry_def ex_trend_def)
qed

text \<open>
  C10. A user of the directory without stored statistics but with a non-empty session
  list has an entry in the report, with \<open>totalWatchTime\<close>, \<open>totalSessions\<close> and
  \<open>lastWatchTime\<close> 0 and with the favorite channels of that list. The report's totals are
  the sums of the stored user statistics, to which this user adds 0, while each of the
  user's sessions is among the scanned sessions from which the hot channels are
  computed. So the report's \<open>totalWatchTime\<close> can be less than the sum of the durations
  it scanned: it is, when this user is the only one and the durations are positive.
\<close>

theorem report_user_without_stats:
  "user \<in> set allUsers \<Longrightarrow> stats st (username user) = None \<Longrightarrow>
   user_sessions st (username user) \<noteq> [] \<Longrightarrow>
     \<lparr>u_username = username user, u_totalWatchTime = 0, u_totalSessions = 0, u_lastWatchTime = 0,
      favoriteChannels = top_favorites (user_sessions st (username user)),
      recentSessions = take 10 (user_sessions st (username user))\<rparr>
       \<in> set (userStats (build_report allUsers now st)) \<and>
     totalWatchTime (build_report allUsers now st) =
       sum_list (map (\<lambda>user. user_total st (username user)) allUsers) \<and>
     totalSessions (build_report allUsers now st) =
       sum_list (map (\<lambda>user. user_count st (username user)) allUsers) \<and>
     user_total st (username user) = 0 \<and> user_count st (username user) = 0 \<and>
     hotChannels (build_report allUsers now st) = top_hot (scanned st allUsers) \<and>
     (\<forall>s \<in> set (user_sessions st (username user)). (username user, s) \<in> set (scanned st allUsers)) \<and>
     (allUsers = [user] \<and> (\<forall>s \<in> set (user_sessions st (username user)). 0 < s_duration s) \<longrightarrow>
        totalWatchTime (build_report allUsers now st) = 0 \<and>
        totalWatchTime (build_report allUsers now st) <
          sum_list (map (\<lambda>p. s_duration (snd p)) (scanned st allUsers)))"
proof -
  assume m: "user \<in> set allUsers" and n: "stats st (username user) = None"
    and ne: "user_sessions st (username user) \<noteq> []"
  have z: "user_total st (username user) = 0" "user_count st (username user) = 0"
    "user_last st (username user) = 0"
    using n by (simp_all add: user_total_def user_count_def user_last_def)
  have a: "active st (username user)" using ne by (simp add: active_def)
  have e: "user_entry st (username user) =
      \<lparr>u_username = username user, u_totalWatchTime = 0, u_totalSessions = 0, u_lastWatchTime = 0,
      favoriteChannels = top_favorites (user_sessions st (username user)),
      recentSessions = take 10 (user_sessions st (username user))\<rparr>"
    by (simp add: user_entry_def z)
  have 1: "user_entry st (username user) \<in> set (userStats (build_report allUsers now st))"
    using m a by (auto simp: build_report_char set_sort_desc simp del: trend_loop.simps)
  have 2: "\<forall>s \<in> set (user_sessions st (username user)). (username user, s) \<in> set (scanned st allUsers)"
    using m by (auto simp: scanned_def)
  have 3: "totalWatchTime (build_report allUsers now st) = 0 \<and>
        totalWatchTime (build_report allUsers now st) <
          sum_list (map (\<lambda>p. s_duration (snd p)) (scanned st allUsers))"
    if s: "allUsers = [user]" and p: "\<forall>s \<in> set (user_sessions st (username user)). 0 < s_duration s"
  proof -
    from ne obtain x xs where l: "user_sessions st (username user) = x # xs"
      by (cases "user_sessions st (username user)") auto
    with p have "0 < s_duration x" and "list_all (\<lambda>s. 0 \<le> s_duration s) xs"
      by (auto simp: list_all_iff intro: less_imp_le)
    then have "0 < s_duration x + sum_list (map s_duration xs)"
      using sum_list_map_nonneg [of s_duration xs] by simp
    then show ?thesis
      by (simp add: build_report_char s z scanned_def l comp_def del: trend_loop.simps)
  qed
  from 1 2 3 show ?thesis
    by (simp add: e [symmetric] z build_report_char del: trend_loop.simps)
qed

theorem report_user_without_stats_witness:
  "ex_bob \<in> set ex_users \<and> stats ex_report_store (username ex_bob) = None \<and>
   user_sessions ex_report_store (username ex_bob) \<noteq> [] \<and>
   \<lparr>u_username = ''bob'', u_totalWatchTime = 0, u_totalSessions = 0, u_lastWatchTime = 0,
      favoriteChannels = [\<lparr>f_channelId = ''c2'', f_channelName = ''Sports'',
        f_channelGroup = ''g1'', f_watchTime = 30, f_watchCount = 1\<rparr>],
      recentSessions = [ex_session ''c2'' ''Sports'' 1]\<rparr>
     \<in> set (userStats (build_report ex_users 86400000 ex_report_store)) \<and>
   totalWatchTime (build_report ex_users 86400000 ex_report_store) = 360 \<and>
   sum_list (map (\<lambda>p. s_duration (snd p)) (scanned ex_report_store ex_users)) = 390 \<and>
   totalWatchTime (build_report [ex_bob] 86400000 ex_report_store) = 0 \<and>
   sum_list (map (\<lambda>p. s_duration (snd p)) (scanned ex_report_store [ex_bob])) = 30"
proof -
  have b: "username ex_bob = ''bob''" by (simp add: ex_bob_def)
  have m: "ex_bob \<in> set ex_users" by (simp add: ex_bob_def ex_users_def)
  have n: "stats ex_report_store (username ex_bob) = None" by (simp add: b ex_sessions)
  have ne: "user_sessions ex_report_store (username ex_bob) \<noteq> []" by (simp add: b ex_sessions)
  have p: "\<forall>s \<in> set (user_sessions ex_report_store (username ex_bob)). 0 < s_duration s"
    by (simp add: b ex_sessions ex_session_def)
  have f: "top_favorites [ex_session ''c2'' ''Sports'' 1] =
      [\<lparr>f_channelId = ''c2'', f_channelName = ''Sports'',
        f_channelGroup = ''g1'', f_watchTime = 30, f_watchCount = 1\<rparr>]"
    by (simp add: top_favorites_def channel_totals_def channel_total_of_def first_occ_def
        sort_desc_def ex_session_def)
  have ut: "user_total ex_report_store ''alice'' = 360" "user_total ex_report_store ''carol'' = 0"
    by (simp_all add: user_total_def ex_report_store_def empty_store_def)
  have s1: "sum_list (map (\<lambda>p. s_duration (snd p)) (scanned ex_report_store ex_users)) = 390"
    by (simp add: scanned_def ex_users_def ex_sessions ex_session_def)
  have s2: "sum_list (map (\<lambda>p. s_duration (snd p)) (scanned ex_report_store [ex_bob])) = 30"
    by (simp add: scanned_def b ex_sessions ex_session_def)
  note t1 = report_user_without_stats [OF m n ne, of 86400000]
  have m2: "ex_bob \<in> set [ex_bob]" by simp
  note t2 = report_user_without_stats [OF m2 n ne, of 86400000]
  from t1 have e: "\<lparr>u_username = ''bob'', u_totalWatchTime = 0, u_totalSessions = 0, u_lastWatchTime = 0,
      favoriteChannels = [\<lparr>f_channelId = ''c2'', f_channelName = ''Sports'',
        f_channelGroup = ''g1'', f_watchTime = 30, f_watchCount = 1\<rparr>],
      recentSessions = [ex_session ''c2'' ''Sports'' 1]\<rparr>
     \<in> set (userStats (build_report ex_users 86400000 ex_report_store))"
    by (simp add: b f ex_sessions)
  from t1 have w: "totalWatchTime (build_report ex_users 86400000 ex_report_store) = 360"
    by (simp add: ex_users_def ut b)
  from t2 p have z: "totalWatchTime (build_report [ex_bob] 86400000 ex_report_store) = 0"
    by blast
  from m n ne e w s1 z s2 show ?thesis by blast
qed

end
